theory Spec2Isabelle
  imports Main
begin

section \<open>The Discord bridge bot of src/bot.ts (the OAuth-gated variant)\<close>

text \<open>
  The file \<^verbatim>\<open>src/src/bot.ts\<close> holds two variants of class \<^verbatim>\<open>DiscordBotService\<close>;
  the model follows the second one (source lines 221-635), which adds the registration
  commands and the account lookup.

  The service is asynchronous glue around four external calls: \<^verbatim>\<open>fetch\<close>,
  \<^verbatim>\<open>message.reply\<close>, \<^verbatim>\<open>client.login\<close> and \<^verbatim>\<open>client.destroy\<close>. Each of them is a
  field of an environment record that maps the call and the current state of the outside
  world \<open>'w\<close> to an outcome and the next state of the world; every theorem quantifies over
  the environment. A method of the class becomes a function from the world to a triple:
  what the method returns or throws (\<open>Inl\<close> is the exception), the events it caused in
  order, and the world afterwards. Every \<^verbatim>\<open>await\<close> is sequential, so one message is handled
  by one such function.
\<close>

subsection \<open>JavaScript strings\<close>

text \<open>
  A \<open>string\<close> stands for a JavaScript string whose code units are below 256 (each \<open>char\<close>
  is one code unit, read as Latin-1). On these, \<^verbatim>\<open>trim\<close> removes TAB, LF, VT, FF, CR,
  space and NBSP, and \<^verbatim>\<open>toLowerCase\<close> maps A-Z and the upper-case letters of
  0xC0-0xDE (without the multiplication sign 0xD7) 32 places up.
\<close>

definition isWhiteSpace :: "char \<Rightarrow> bool" where
  "isWhiteSpace c = (of_char c \<in> {9, 10, 11, 12, 13, 32, 160 :: nat})"

definition trim :: "string \<Rightarrow> string" where
  "trim s = rev (dropWhile isWhiteSpace (rev (dropWhile isWhiteSpace s)))"

definition startsWith :: "string \<Rightarrow> string \<Rightarrow> bool" where
  "startsWith s p = (take (length p) s = p)"

fun includes_str :: "string \<Rightarrow> string \<Rightarrow> bool" where
  "includes_str [] p = (p = [])"
| "includes_str (c # s) p = (startsWith (c # s) p \<or> includes_str s p)"

definition toLowerCase_unit :: "char \<Rightarrow> char" where
  "toLowerCase_unit c =
     (let n = of_char c :: nat
      in if (65 \<le> n \<and> n \<le> 90) \<or> (192 \<le> n \<and> n \<le> 222 \<and> n \<noteq> 215)
         then char_of (n + 32) else c)"

definition toLowerCase :: "string \<Rightarrow> string" where
  "toLowerCase s = map toLowerCase_unit s"

text \<open>\<^verbatim>\<open>s.split(sep)\<close> for a one-character separator: the empty string gives one empty piece.\<close>

fun split_str :: "char \<Rightarrow> string \<Rightarrow> string list" where
  "split_str sep [] = [[]]"
| "split_str sep (c # s) =
     (if c = sep then [] # split_str sep s
      else (case split_str sep s of [] \<Rightarrow> [[c]] | h # t \<Rightarrow> (c # h) # t))"

text \<open>\<^verbatim>\<open>s.replace(pat, rep)\<close> for a string pattern: the first occurrence only.\<close>

fun replace :: "string \<Rightarrow> string \<Rightarrow> string \<Rightarrow> string" where
  "replace [] pat rep = (if pat = [] then rep else [])"
| "replace (c # s) pat rep =
     (if startsWith (c # s) pat then rep @ drop (length pat) (c # s)
      else c # replace s pat rep)"

subsection \<open>JavaScript values, truthiness and exceptions\<close>

text \<open>
  What \<^verbatim>\<open>response.json()\<close> yields, and \<^verbatim>\<open>undefined\<close> for a property that is absent.
  An object is the list of its own properties, each key once. Of a number the program
  only ever tests whether it is zero.
\<close>

datatype js =
    JUndefined
  | JNull
  | JBool bool
  | JNum int
  | JStr string
  | JArr "js list"
  | JObj "(string \<times> js) list"

fun truthy :: "js \<Rightarrow> bool" where
  "truthy JUndefined = False"
| "truthy JNull = False"
| "truthy (JBool b) = b"
| "truthy (JNum n) = (n \<noteq> 0)"
| "truthy (JStr s) = (s \<noteq> [])"
| "truthy (JArr xs) = True"
| "truthy (JObj kvs) = True"

text \<open>
  \<open>Rejected\<close> is a rejection of an external call, with whatever the outside gave as the
  reason; \<open>TypeError\<close> is a property read on \<^verbatim>\<open>null\<close> or \<^verbatim>\<open>undefined\<close>; the other two are
  the \<^verbatim>\<open>throw new Error(...)\<close> of lines 272-279 and of line 365.
\<close>

datatype exn =
    Rejected string
  | TypeError
  | Error string
  | Failed_to_fetch_attachment nat

text \<open>
  \<^verbatim>\<open>v.k\<close>, for the keys this program reads (success, registered, user, email,
  registeredAt, authUrl, error): none of them is a property of a prototype, so on
  anything but an object that has the key the read gives \<^verbatim>\<open>undefined\<close>.
\<close>

fun get_prop :: "js \<Rightarrow> string \<Rightarrow> exn + js" where
  "get_prop JUndefined k = Inl TypeError"
| "get_prop JNull k = Inl TypeError"
| "get_prop (JObj kvs) k = Inr (case map_of kvs k of None \<Rightarrow> JUndefined | Some v \<Rightarrow> v)"
| "get_prop v k = Inr JUndefined"

text \<open>\<^verbatim>\<open>v?.k\<close>\<close>

fun get_prop_opt :: "js \<Rightarrow> string \<Rightarrow> exn + js" where
  "get_prop_opt JUndefined k = Inr JUndefined"
| "get_prop_opt JNull k = Inr JUndefined"
| "get_prop_opt v k = get_prop v k"

subsection \<open>Messages, configuration, requests and responses\<close>

record attachment =
  url :: string
  contentType :: "string option"
  name :: "string option"

text \<open>
  \<^verbatim>\<open>message.id\<close> is \<open>message_id\<close>, \<^verbatim>\<open>message.author.id\<close>, \<^verbatim>\<open>.username\<close> and \<^verbatim>\<open>.bot\<close> are
  \<open>author_id\<close>, \<open>author_username\<close> and \<open>author_bot\<close>. A direct message has no guild id.
\<close>

record message =
  message_id :: string
  channelId :: string
  guildId :: "string option"
  author_id :: string
  author_username :: string
  author_bot :: bool
  content :: string
  attachments :: "attachment list"

text \<open>The truthiness of \<^verbatim>\<open>message.guildId\<close>.\<close>

definition inGuild :: "message \<Rightarrow> bool" where
  "inGuild m = (case guildId m of None \<Rightarrow> False | Some g \<Rightarrow> g \<noteq> [])"

record process_env =
  env_DISCORD_BOT_TOKEN :: "string option"
  env_RECEIVER_URL :: "string option"
  env_IMAGE_RECEIVER_TOKEN :: "string option"
  env_ALLOWED_CHANNELS :: "string option"

record config =
  BOT_TOKEN :: "string option"
  RECEIVER_URL :: string
  RECEIVER_TOKEN :: string
  ALLOWED_CHANNELS :: "string list"

text \<open>\<^verbatim>\<open>v || d\<close> on an environment variable: unset and empty both give the default.\<close>

definition or_default :: "string option \<Rightarrow> string \<Rightarrow> string" where
  "or_default v d = (case v of None \<Rightarrow> d | Some s \<Rightarrow> if s = [] then d else s)"

text \<open>The getter \<^verbatim>\<open>config\<close> (lines 257-267).\<close>

definition config :: "process_env \<Rightarrow> config" where
  "config penv =
     \<lparr> BOT_TOKEN = env_DISCORD_BOT_TOKEN penv,
       RECEIVER_URL = or_default (env_RECEIVER_URL penv) ''http://localhost:3000/api/receiver/image'',
       RECEIVER_TOKEN = or_default (env_IMAGE_RECEIVER_TOKEN penv) [],
       ALLOWED_CHANNELS =
         filter (\<lambda>s. s \<noteq> [])
           (map trim (split_str CHR '','' (or_default (env_ALLOWED_CHANNELS penv) []))) \<rparr>"

text \<open>\<^verbatim>\<open>validateConfig\<close> (lines 269-281).\<close>

definition validateConfig :: "process_env \<Rightarrow> exn + unit" where
  "validateConfig penv =
     (if BOT_TOKEN (config penv) = None \<or> BOT_TOKEN (config penv) = Some []
        then Inl (Error ''Missing DISCORD_BOT_TOKEN in environment variables'')
      else if RECEIVER_TOKEN (config penv) = []
        then Inl (Error ''Missing IMAGE_RECEIVER_TOKEN in environment variables'')
      else if RECEIVER_URL (config penv) = []
        then Inl (Error ''Missing RECEIVER_URL in environment variables'')
      else Inr ())"

datatype http_method = GET | POST

text \<open>
  A field of a multipart body: a value (a string in every case but the email, which is
  whatever truthy value the lookup returned), or the file (bytes, content type, file name).
\<close>

datatype form_value = Field js | File string string string

datatype request_body = No_body | Json_body js | Form_body "(string \<times> form_value) list"

record request =
  req_method :: http_method
  req_url :: string
  req_headers :: "(string \<times> string) list"
  req_body :: request_body

text \<open>
  A response: its status, its content-type header, and what reading the body gives, as
  JSON (\<^verbatim>\<open>json()\<close>) and as bytes (\<^verbatim>\<open>arrayBuffer()\<close>); either read may reject.
\<close>

record response =
  status :: nat
  content_type :: "string option"
  json :: "exn + js"
  arrayBuffer :: "exn + string"

definition ok :: "response \<Rightarrow> bool" where
  "ok r = (200 \<le> status r \<and> status r \<le> 299)"

subsection \<open>Events and the outside world\<close>

text \<open>The replies of the program, by their source line.\<close>

datatype reply_msg =
    Reply_register_first  \<comment> \<open>line 354: You need to register first!\<close>
  | Reply_got_it  \<comment> \<open>line 503: Got it! I received your image and started processing.\<close>
  | Reply_sorry  \<comment> \<open>line 506: Sorry, I could not process that image. Please try again.\<close>
  | Reply_invalid_format  \<comment> \<open>line 542: Invalid format. Use: !register\<close>
  | Reply_auth_link js  \<comment> \<open>line 572, with \<^verbatim>\<open>result.authUrl\<close>\<close>
  | Reply_auth_failed js  \<comment> \<open>line 582, with \<^verbatim>\<open>result.error || 'Unknown error'\<close>\<close>
  | Reply_auth_technical_error  \<comment> \<open>line 586\<close>
  | Reply_status_active js js  \<comment> \<open>line 604, with \<^verbatim>\<open>user?.email\<close> and \<^verbatim>\<open>user?.registeredAt\<close>\<close>
  | Reply_status_not_registered  \<comment> \<open>line 606\<close>
  | Reply_status_unavailable  \<comment> \<open>line 610\<close>

text \<open>Entries into the methods of the class, with the arguments of the call.\<close>

datatype invocation =
    Call_handleRegistrationCommand
  | Call_handleStatusCommand
  | Call_forwardAttachment string "string option"
  | Call_forwardText
  | Call_getUserEmail string

text \<open>
  Console output: every \<^verbatim>\<open>console.error\<close>, and the \<^verbatim>\<open>console.log\<close> lines of \<^verbatim>\<open>start\<close>
  and \<^verbatim>\<open>stop\<close>. The progress lines that \<^verbatim>\<open>console.log\<close> prints while a message is handled
  are left out: none of their arguments can throw, so they change no control flow.
\<close>

datatype console_line =
    Log_already_running  \<comment> \<open>line 285\<close>
  | Log_started  \<comment> \<open>line 306\<close>
  | Err_start exn  \<comment> \<open>line 308\<close>
  | Log_stopped  \<comment> \<open>line 322\<close>
  | Err_stop exn  \<comment> \<open>line 324\<close>
  | Err_fetch_attachment nat  \<comment> \<open>line 364\<close>
  | Err_receiver nat js  \<comment> \<open>line 400\<close>
  | Err_forward_attachment exn  \<comment> \<open>lines 407-408\<close>
  | Err_receiver_text nat js  \<comment> \<open>line 446\<close>
  | Err_forward_text exn  \<comment> \<open>lines 452-453\<close>
  | Err_handler exn  \<comment> \<open>lines 531-532\<close>
  | Err_oauth_failed js  \<comment> \<open>line 581\<close>
  | Err_registration exn  \<comment> \<open>line 585\<close>
  | Err_status exn  \<comment> \<open>line 609\<close>
  | Err_getUserEmail exn  \<comment> \<open>line 627\<close>

datatype event =
    Invoke invocation
  | Fetch request
  | Reply reply_msg
  | Login "string option"
  | Destroy
  | Console console_line

record 'w environment =
  env_fetch :: "request \<Rightarrow> 'w \<Rightarrow> (exn + response) \<times> 'w"
  env_reply :: "reply_msg \<Rightarrow> 'w \<Rightarrow> (exn + unit) \<times> 'w"
  env_login :: "string option \<Rightarrow> 'w \<Rightarrow> (exn + unit) \<times> 'w"
  env_destroy :: "'w \<Rightarrow> (exn + unit) \<times> 'w"

subsection \<open>Sequencing, exceptions and try/catch\<close>

type_synonym ('w, 'a) io = "'w \<Rightarrow> (exn + 'a) \<times> event list \<times> 'w"

definition return :: "'a \<Rightarrow> ('w, 'a) io" where
  "return x w = (Inr x, [], w)"

definition lift :: "exn + 'a \<Rightarrow> ('w, 'a) io" where
  "lift r w = (r, [], w)"

definition emit :: "event \<Rightarrow> ('w, unit) io" where
  "emit e w = (Inr (), [e], w)"

text \<open>An external call: the event of the call, then the outcome the outside gives.\<close>

definition external :: "event \<Rightarrow> ('w \<Rightarrow> (exn + 'a) \<times> 'w) \<Rightarrow> ('w, 'a) io" where
  "external e f w = (case f w of (r, w') \<Rightarrow> (r, [e], w'))"

text \<open>\<^verbatim>\<open>const x = await m; f x\<close>: an exception of \<open>m\<close> skips \<open>f\<close>.\<close>

definition await :: "('w, 'a) io \<Rightarrow> ('a \<Rightarrow> ('w, 'b) io) \<Rightarrow> ('w, 'b) io" where
  "await m f w =
     (case m w of
        (Inl e, es, w1) \<Rightarrow> (Inl e, es, w1)
      | (Inr x, es, w1) \<Rightarrow> (case f x w1 of (r, es', w2) \<Rightarrow> (r, es @ es', w2)))"

text \<open>\<^verbatim>\<open>try { m } catch (e) { h e }\<close>\<close>

definition try_catch :: "('w, 'a) io \<Rightarrow> (exn \<Rightarrow> ('w, 'a) io) \<Rightarrow> ('w, 'a) io" where
  "try_catch m h w =
     (case m w of
        (Inl e, es, w1) \<Rightarrow> (case h e w1 of (r, es', w2) \<Rightarrow> (r, es @ es', w2))
      | (Inr x, es, w1) \<Rightarrow> (Inr x, es, w1))"

definition fetch :: "'w environment \<Rightarrow> request \<Rightarrow> ('w, response) io" where
  "fetch env req = external (Fetch req) (env_fetch env req)"

definition message_reply :: "'w environment \<Rightarrow> reply_msg \<Rightarrow> ('w, unit) io" where
  "message_reply env r = external (Reply r) (env_reply env r)"

definition console :: "console_line \<Rightarrow> ('w, unit) io" where
  "console l = emit (Console l)"

text \<open>Reading a triple.\<close>

definition outcome :: "'r \<times> event list \<times> 'w \<Rightarrow> 'r" where
  "outcome t = fst t"

definition events :: "'r \<times> event list \<times> 'w \<Rightarrow> event list" where
  "events t = fst (snd t)"

definition world :: "'r \<times> event list \<times> 'w \<Rightarrow> 'w" where
  "world t = snd (snd t)"

subsection \<open>The lifecycle: start and stop (lines 283-338)\<close>

text \<open>
  The client object, as far as this class touches it: how many listeners it registered
  with \<^verbatim>\<open>once(ClientReady)\<close> and with \<^verbatim>\<open>on(MessageCreate)\<close>.
\<close>

record client_obj =
  ready_listeners :: nat
  message_listeners :: nat

record service =
  client :: "client_obj option"
  isRunning :: bool

definition new_Client :: client_obj where
  "new_Client = \<lparr> ready_listeners = 0, message_listeners = 0 \<rparr>"

definition setupEventHandlers :: "service \<Rightarrow> service" where
  "setupEventHandlers s =
     (case client s of
        None \<Rightarrow> s
      | Some c \<Rightarrow>
          s\<lparr> client := Some (c\<lparr> ready_listeners := ready_listeners c + 1,
                                 message_listeners := message_listeners c + 1 \<rparr>) \<rparr>)"

text \<open>
  \<^verbatim>\<open>start\<close> and \<^verbatim>\<open>stop\<close> also read and write the two fields of the service, so the
  state they pass along is the pair of these fields and the world. An exception leaves the
  fields as they were when it was thrown.
\<close>

definition start :: "process_env \<Rightarrow> 'w environment \<Rightarrow> (service \<times> 'w, unit) io" where
  "start penv env sw =
     (case sw of (s, w) \<Rightarrow>
      if isRunning s then (Inr (), [Console Log_already_running], (s, w))
      else
        (case validateConfig penv of
           Inl error \<Rightarrow> (Inl error, [Console (Err_start error)], (s, w))
         | Inr _ \<Rightarrow>
             (let s1 = setupEventHandlers (s\<lparr> client := Some new_Client \<rparr>);
                  token = BOT_TOKEN (config penv)
              in case env_login env token w of
                   (Inl error, w1) \<Rightarrow>
                     (Inl error, [Login token, Console (Err_start error)], (s1, w1))
                 | (Inr _, w1) \<Rightarrow>
                     (Inr (), [Login token, Console Log_started],
                      (s1\<lparr> isRunning := True \<rparr>, w1)))))"

definition stop :: "'w environment \<Rightarrow> (service \<times> 'w, unit) io" where
  "stop env sw =
     (case sw of (s, w) \<Rightarrow>
      if \<not> isRunning s \<or> client s = None then (Inr (), [], (s, w))
      else
        (case env_destroy env w of
           (Inl error, w1) \<Rightarrow> (Inr (), [Destroy, Console (Err_stop error)], (s, w1))
         | (Inr _, w1) \<Rightarrow>
             (Inr (), [Destroy, Console Log_stopped],
              (s\<lparr> client := None, isRunning := False \<rparr>, w1))))"

text \<open>The fields of the service after a call of \<^verbatim>\<open>start\<close> or \<^verbatim>\<open>stop\<close>.\<close>

definition service_after :: "'r \<times> event list \<times> service \<times> 'w \<Rightarrow> service" where
  "service_after t = fst (snd (snd t))"

subsection \<open>Requests\<close>

definition get_request :: "string \<Rightarrow> request" where
  "get_request u = \<lparr> req_method = GET, req_url = u, req_headers = [], req_body = No_body \<rparr>"

text \<open>The status URL of lines 597 and 617.\<close>

definition statusUrl :: "process_env \<Rightarrow> string \<Rightarrow> string" where
  "statusUrl penv discordId =
     replace (RECEIVER_URL (config penv)) ''/api/receiver/image'' ''/api/discord/register''
       @ ''?discordId='' @ discordId"

text \<open>The OAuth-initiation request of lines 554-565.\<close>

definition oauthInitUrl :: "process_env \<Rightarrow> string" where
  "oauthInitUrl penv =
     replace (RECEIVER_URL (config penv)) ''/api/receiver/image'' ''/api/auth/oauth/initiate''"

definition oauth_request :: "process_env \<Rightarrow> message \<Rightarrow> request" where
  "oauth_request penv m =
     \<lparr> req_method = POST,
       req_url = oauthInitUrl penv,
       req_headers = [(''Content-Type'', ''application/json'')],
       req_body = Json_body (JObj [(''discordId'', JStr (author_id m)),
                                   (''discordUsername'', JStr (author_username m))]) \<rparr>"

text \<open>The upload of lines 373-391.\<close>

definition upload_request ::
  "process_env \<Rightarrow> message \<Rightarrow> string \<Rightarrow> string \<Rightarrow> string option \<Rightarrow> js \<Rightarrow> request" where
  "upload_request penv m ctype buffer originalName userEmail =
     \<lparr> req_method = POST,
       req_url = RECEIVER_URL (config penv),
       req_headers = [(''x-receiver-token'', RECEIVER_TOKEN (config penv))],
       req_body = Form_body
         [(''file'', File buffer ctype (or_default originalName ''image'')),
          (''source'', Field (JStr ''discord'')),
          (''discordMessageId'', Field (JStr (message_id m))),
          (''discordChannelId'', Field (JStr (channelId m))),
          (''discordAuthorId'', Field (JStr (author_id m))),
          (''userEmail'', Field userEmail)] \<rparr>"

text \<open>The text post of lines 425-439.\<close>

definition text_request :: "process_env \<Rightarrow> message \<Rightarrow> string \<Rightarrow> request" where
  "text_request penv m trimmed =
     \<lparr> req_method = POST,
       req_url = RECEIVER_URL (config penv),
       req_headers = [(''x-receiver-token'', RECEIVER_TOKEN (config penv))],
       req_body = Form_body
         [(''text'', Field (JStr trimmed)),
          (''source'', Field (JStr ''discord'')),
          (''discordMessageId'', Field (JStr (message_id m))),
          (''discordChannelId'', Field (JStr (channelId m))),
          (''discordAuthorId'', Field (JStr (author_id m)))] \<rparr>"

subsection \<open>The account lookup: getUserEmail (lines 614-630)\<close>

text \<open>
  The condition of line 622 is evaluated left to right and stops at the first falsy
  operand, so a body that is \<^verbatim>\<open>null\<close> throws only when the status is 2xx.
\<close>

definition getUserEmail :: "process_env \<Rightarrow> 'w environment \<Rightarrow> string \<Rightarrow> ('w, js) io" where
  "getUserEmail penv env discordId =
     await (emit (Invoke (Call_getUserEmail discordId))) (\<lambda>_.
     try_catch
       (await (fetch env (get_request (statusUrl penv discordId))) (\<lambda>response.
        await (lift (json response)) (\<lambda>result.
        if ok response then
          await (lift (get_prop result ''success'')) (\<lambda>success.
          if truthy success then
            await (lift (get_prop result ''registered'')) (\<lambda>registered.
            if truthy registered then
              await (lift (get_prop result ''user'')) (\<lambda>user.
              await (lift (get_prop_opt user ''email'')) (\<lambda>email.
              if truthy email then return email else return JNull))
            else return JNull)
          else return JNull)
        else return JNull)))
       (\<lambda>error. await (console (Err_getUserEmail error)) (\<lambda>_. return JNull)))"

subsection \<open>The forwarder: forwardAttachment (lines 340-411) and forwardText (lines 413-456)\<close>

definition forwardAttachment ::
  "process_env \<Rightarrow> 'w environment \<Rightarrow> message \<Rightarrow> string \<Rightarrow> string option \<Rightarrow> ('w, bool) io" where
  "forwardAttachment penv env m attachmentUrl originalName =
     await (emit (Invoke (Call_forwardAttachment attachmentUrl originalName))) (\<lambda>_.
     try_catch
       (await (getUserEmail penv env (author_id m)) (\<lambda>userEmail.
        if \<not> truthy userEmail then
          await (message_reply env Reply_register_first) (\<lambda>_. return False)
        else
          await (fetch env (get_request attachmentUrl)) (\<lambda>res.
          if \<not> ok res then
            await (console (Err_fetch_attachment (status res))) (\<lambda>_.
            lift (Inl (Failed_to_fetch_attachment (status res))))
          else
            await (lift (arrayBuffer res)) (\<lambda>buffer.
            await (fetch env
                     (upload_request penv m
                        (or_default (content_type res) ''application/octet-stream'')
                        buffer originalName userEmail)) (\<lambda>upload.
            await (lift (json upload)) (\<lambda>json.
            if \<not> ok upload \<or> \<not> truthy json then
              await (console (Err_receiver (status upload) json)) (\<lambda>_. return False)
            else return True))))))
       (\<lambda>err. await (console (Err_forward_attachment err)) (\<lambda>_. return False)))"

definition forwardText :: "process_env \<Rightarrow> 'w environment \<Rightarrow> message \<Rightarrow> ('w, bool) io" where
  "forwardText penv env m =
     await (emit (Invoke Call_forwardText)) (\<lambda>_.
     try_catch
       (if trim (content m) = [] then return False
        else
          await (fetch env (text_request penv m (trim (content m)))) (\<lambda>res.
          await (lift (json res)) (\<lambda>json.
          if \<not> ok res \<or> \<not> truthy json then
            await (console (Err_receiver_text (status res) json)) (\<lambda>_. return False)
          else return True)))
       (\<lambda>err. await (console (Err_forward_text err)) (\<lambda>_. return False)))"

subsection \<open>The commands (lines 536-612)\<close>

text \<open>\<^verbatim>\<open>response.ok && result.success && result[k]\<close>, the condition of lines 569 and 602.\<close>

definition ok_success_and :: "response \<Rightarrow> js \<Rightarrow> string \<Rightarrow> ('w, bool) io" where
  "ok_success_and response result k =
     (if ok response then
        await (lift (get_prop result ''success'')) (\<lambda>success.
        if truthy success then
          await (lift (get_prop result k)) (\<lambda>v. return (truthy v))
        else return False)
      else return False)"

definition handleRegistrationCommand ::
  "process_env \<Rightarrow> 'w environment \<Rightarrow> message \<Rightarrow> ('w, unit) io" where
  "handleRegistrationCommand penv env m =
     await (emit (Invoke Call_handleRegistrationCommand)) (\<lambda>_.
     try_catch
       (if trim (content m) \<noteq> ''!register'' then message_reply env Reply_invalid_format
        else
          await (fetch env (oauth_request penv m)) (\<lambda>response.
          await (lift (json response)) (\<lambda>result.
          await (ok_success_and response result ''authUrl'') (\<lambda>c.
          if c then
            await (lift (get_prop result ''authUrl'')) (\<lambda>authUrl.
            message_reply env (Reply_auth_link authUrl))
          else
            await (lift (get_prop result ''error'')) (\<lambda>error.
            await (console (Err_oauth_failed error)) (\<lambda>_.
            message_reply env
              (Reply_auth_failed (if truthy error then error else JStr ''Unknown error''))))))))
       (\<lambda>error.
          await (console (Err_registration error)) (\<lambda>_.
          message_reply env Reply_auth_technical_error)))"

definition handleStatusCommand ::
  "process_env \<Rightarrow> 'w environment \<Rightarrow> message \<Rightarrow> ('w, unit) io" where
  "handleStatusCommand penv env m =
     await (emit (Invoke Call_handleStatusCommand)) (\<lambda>_.
     try_catch
       (await (fetch env (get_request (statusUrl penv (author_id m)))) (\<lambda>response.
        await (lift (json response)) (\<lambda>result.
        await (ok_success_and response result ''registered'') (\<lambda>c.
        if c then
          await (lift (get_prop result ''user'')) (\<lambda>user.
          await (lift (get_prop_opt user ''email'')) (\<lambda>email.
          await (lift (get_prop_opt user ''registeredAt'')) (\<lambda>registeredAt.
          message_reply env (Reply_status_active email registeredAt))))
        else message_reply env Reply_status_not_registered))))
       (\<lambda>error.
          await (console (Err_status error)) (\<lambda>_.
          message_reply env Reply_status_unavailable)))"

subsection \<open>The classifier: handleMessage (lines 458-534)\<close>

text \<open>The test of lines 495-496 on \<^verbatim>\<open>att.contentType\<close>.\<close>

definition isImageType :: "string option \<Rightarrow> bool" where
  "isImageType ct =
     (let lower = toLowerCase (case ct of None \<Rightarrow> [] | Some s \<Rightarrow> s)
      in includes_str lower ''image/jpeg'' \<or> includes_str lower ''image/png''
         \<or> includes_str lower ''image/webp'' \<or> includes_str lower ''image/gif'')"

text \<open>\<^verbatim>\<open>att.name || undefined\<close>, the third argument of the call of line 498.\<close>

definition name_arg :: "attachment \<Rightarrow> string option" where
  "name_arg att = (case name att of None \<Rightarrow> None | Some n \<Rightarrow> if n = [] then None else Some n)"

text \<open>The loop of lines 493-512.\<close>

fun attachment_loop ::
  "process_env \<Rightarrow> 'w environment \<Rightarrow> message \<Rightarrow> attachment list \<Rightarrow> ('w, unit) io" where
  "attachment_loop penv env m [] = return ()"
| "attachment_loop penv env m (att # atts) =
     await
       (if isImageType (contentType att) then
          await (forwardAttachment penv env m (url att) (name_arg att)) (\<lambda>ok.
          if \<not> inGuild m then
            (if ok then message_reply env Reply_got_it else message_reply env Reply_sorry)
          else return ())
        else return ())
       (\<lambda>_. attachment_loop penv env m atts)"

text \<open>What follows the allow-list check: lines 488-529.\<close>

definition handleMessage_content ::
  "process_env \<Rightarrow> 'w environment \<Rightarrow> message \<Rightarrow> ('w, unit) io" where
  "handleMessage_content penv env m =
     (if attachments m \<noteq> [] then attachment_loop penv env m (attachments m)
      else if content m \<noteq> [] \<and> trim (content m) \<noteq> [] then
        (if startsWith (content m) ''!'' then return ()
         else await (forwardText penv env m) (\<lambda>_. return ()))
      else return ())"

text \<open>The body of the \<^verbatim>\<open>try\<close> block: lines 460-529.\<close>

definition handleMessage_try ::
  "process_env \<Rightarrow> 'w environment \<Rightarrow> message \<Rightarrow> ('w, unit) io" where
  "handleMessage_try penv env m =
     (if author_bot m then return ()
      else if startsWith (content m) ''!register'' then handleRegistrationCommand penv env m
      else if content m = ''!status'' \<or> content m = ''!whoami'' then
        handleStatusCommand penv env m
      else if inGuild m \<and> ALLOWED_CHANNELS (config penv) \<noteq> []
                \<and> channelId m \<notin> set (ALLOWED_CHANNELS (config penv)) then return ()
      else handleMessage_content penv env m)"

definition handleMessage :: "process_env \<Rightarrow> 'w environment \<Rightarrow> message \<Rightarrow> ('w, unit) io" where
  "handleMessage penv env m =
     try_catch (handleMessage_try penv env m) (\<lambda>err. console (Err_handler err))"

subsection \<open>Reading a trace\<close>

definition collect :: "(event \<Rightarrow> 'b list) \<Rightarrow> event list \<Rightarrow> 'b list" where
  "collect g es = concat (map g es)"

fun reply_of :: "event \<Rightarrow> reply_msg list" where
  "reply_of (Reply r) = [r]"
| "reply_of e = []"

text \<open>The replies sent, in order.\<close>

definition replies :: "event list \<Rightarrow> reply_msg list" where
  "replies es = collect reply_of es"

fun request_of :: "event \<Rightarrow> request list" where
  "request_of (Fetch r) = [r]"
| "request_of e = []"

text \<open>The HTTP requests issued, in order.\<close>

definition requests :: "event list \<Rightarrow> request list" where
  "requests es = collect request_of es"

fun forward_call_of :: "event \<Rightarrow> (string \<times> string option) list" where
  "forward_call_of (Invoke (Call_forwardAttachment u n)) = [(u, n)]"
| "forward_call_of e = []"

text \<open>The calls of \<^verbatim>\<open>forwardAttachment\<close>, in order, each with its URL and name arguments.\<close>

definition forward_calls :: "event list \<Rightarrow> (string \<times> string option) list" where
  "forward_calls es = collect forward_call_of es"

text \<open>
  The calls of \<^verbatim>\<open>forwardAttachment\<close> that a list of attachments asks for: one for each
  attachment whose content type passes the test of line 496, in the order of the list.
\<close>

definition expected_calls :: "attachment list \<Rightarrow> (string \<times> string option) list" where
  "expected_calls atts =
     map (\<lambda>a. (url a, name_arg a)) (filter (\<lambda>a. isImageType (contentType a)) atts)"

subsection \<open>The criteria of the specification\<close>

text \<open>
  The success criterion of the receiver's answer, in the words of the specification:
  a 2xx status and a body that parses to a truthy value. A rejected request is no success.
\<close>

definition receiver_accepts :: "exn + response \<Rightarrow> bool" where
  "receiver_accepts r =
     (case r of
        Inl e \<Rightarrow> False
      | Inr resp \<Rightarrow> ok resp \<and> (case json resp of Inl e \<Rightarrow> False | Inr body \<Rightarrow> truthy body))"

text \<open>
  A field of the body of a status response, \<^verbatim>\<open>undefined\<close> when the body does not parse or
  has no such field, and the email it reports.
\<close>

definition body_field :: "response \<Rightarrow> string \<Rightarrow> js" where
  "body_field resp k =
     (case json resp of
        Inl e \<Rightarrow> JUndefined
      | Inr body \<Rightarrow> (case get_prop body k of Inl e \<Rightarrow> JUndefined | Inr v \<Rightarrow> v))"

definition body_email :: "response \<Rightarrow> js" where
  "body_email resp =
     (case get_prop_opt (body_field resp ''user'') ''email'' of
        Inl e \<Rightarrow> JUndefined | Inr v \<Rightarrow> v)"

text \<open>
  What the account lookup makes of the outcome of its request: the email when the status
  is 2xx and the body has truthy \<^verbatim>\<open>success\<close>, \<^verbatim>\<open>registered\<close> and \<^verbatim>\<open>user.email\<close>, and
  \<^verbatim>\<open>null\<close> otherwise.
\<close>

definition registered_email :: "exn + response \<Rightarrow> js" where
  "registered_email r =
     (case r of
        Inl e \<Rightarrow> JNull
      | Inr resp \<Rightarrow>
          if ok resp \<and> truthy (body_field resp ''success'')
             \<and> truthy (body_field resp ''registered'') \<and> truthy (body_email resp)
          then body_email resp else JNull)"

subsection \<open>Concrete scenarios\<close>

text \<open>An outside world in which every call succeeds except \<^verbatim>\<open>fetch\<close>, and one in which every call is rejected.\<close>

definition quiet_env :: "unit environment" where
  "quiet_env =
     \<lparr> env_fetch = (\<lambda>req w. (Inl (Rejected ''offline''), w)),
       env_reply = (\<lambda>r w. (Inr (), w)),
       env_login = (\<lambda>t w. (Inr (), w)),
       env_destroy = (\<lambda>w. (Inr (), w)) \<rparr>"

definition failing_env :: "unit environment" where
  "failing_env =
     \<lparr> env_fetch = (\<lambda>req w. (Inl (Rejected ''offline''), w)),
       env_reply = (\<lambda>r w. (Inl (Rejected ''cannot reply''), w)),
       env_login = (\<lambda>t w. (Inl (Rejected ''invalid token''), w)),
       env_destroy = (\<lambda>w. (Inl (Rejected ''socket error''), w)) \<rparr>"

text \<open>
  A receiver that answers every GET with one response and every POST with another;
  replies succeed or are rejected.
\<close>

definition server_env :: "response \<Rightarrow> response \<Rightarrow> bool \<Rightarrow> unit environment" where
  "server_env get_resp post_resp reply_ok =
     \<lparr> env_fetch = (\<lambda>req w. (Inr (if req_method req = GET then get_resp else post_resp), w)),
       env_reply = (\<lambda>r w. (if reply_ok then Inr () else Inl (Rejected ''cannot reply''), w)),
       env_login = (\<lambda>t w. (Inr (), w)),
       env_destroy = (\<lambda>w. (Inr (), w)) \<rparr>"

definition resp_registered :: response where
  "resp_registered =
     \<lparr> status = 200, content_type = Some ''image/png'',
       json = Inr (JObj [(''success'', JBool True), (''registered'', JBool True),
                         (''user'', JObj [(''email'', JStr ''ann@example.com'')])]),
       arrayBuffer = Inr ''PNG'' \<rparr>"

definition resp_unregistered :: response where
  "resp_unregistered =
     \<lparr> status = 200, content_type = Some ''application/json'',
       json = Inr (JObj [(''success'', JBool True), (''registered'', JBool False)]),
       arrayBuffer = Inr [] \<rparr>"

definition resp_success_false :: response where
  "resp_success_false =
     \<lparr> status = 200, content_type = Some ''application/json'',
       json = Inr (JObj [(''success'', JBool False), (''registered'', JBool True),
                         (''user'', JObj [(''email'', JStr ''ann@example.com'')])]),
       arrayBuffer = Inr [] \<rparr>"

definition resp_accepted :: response where
  "resp_accepted =
     \<lparr> status = 200, content_type = Some ''application/json'',
       json = Inr (JObj [(''success'', JBool True)]), arrayBuffer = Inr [] \<rparr>"

definition resp_server_error :: response where
  "resp_server_error =
     \<lparr> status = 500, content_type = Some ''application/json'',
       json = Inr (JObj [(''error'', JStr ''boom'')]), arrayBuffer = Inr [] \<rparr>"

definition penv_ok :: process_env where
  "penv_ok = \<lparr> env_DISCORD_BOT_TOKEN = Some ''tok'', env_RECEIVER_URL = None,
               env_IMAGE_RECEIVER_TOKEN = Some ''secret'', env_ALLOWED_CHANNELS = None \<rparr>"

definition penv_no_token :: process_env where
  "penv_no_token = \<lparr> env_DISCORD_BOT_TOKEN = None, env_RECEIVER_URL = None,
               env_IMAGE_RECEIVER_TOKEN = Some ''secret'', env_ALLOWED_CHANNELS = None \<rparr>"

definition penv_allow :: process_env where
  "penv_allow = \<lparr> env_DISCORD_BOT_TOKEN = Some ''tok'', env_RECEIVER_URL = None,
               env_IMAGE_RECEIVER_TOKEN = Some ''secret'', env_ALLOWED_CHANNELS = Some ''c1, c2'' \<rparr>"

definition stopped :: service where
  "stopped = \<lparr> client = None, isRunning = False \<rparr>"

definition running :: service where
  "running = \<lparr> client = Some \<lparr> ready_listeners = 1, message_listeners = 1 \<rparr>, isRunning = True \<rparr>"

definition png_a :: attachment where
  "png_a = \<lparr> url = ''https://cdn.example/a.png'', contentType = Some ''image/png'',
             name = Some ''a.png'' \<rparr>"

definition png_b :: attachment where
  "png_b = \<lparr> url = ''https://cdn.example/b.png'', contentType = Some ''image/png'',
             name = Some ''b.png'' \<rparr>"

definition pdf_c :: attachment where
  "pdf_c = \<lparr> url = ''https://cdn.example/c.pdf'', contentType = Some ''application/pdf'',
             name = Some ''c.pdf'' \<rparr>"

definition dm_png :: message where
  "dm_png =
     \<lparr> message_id = ''m2'', channelId = ''d1'', guildId = None, author_id = ''7'',
       author_username = ''ann'', author_bot = False, content = [], attachments = [png_a] \<rparr>"

definition guild_png :: message where
  "guild_png =
     \<lparr> message_id = ''m3'', channelId = ''c1'', guildId = Some ''g1'', author_id = ''7'',
       author_username = ''ann'', author_bot = False, content = [], attachments = [png_a] \<rparr>"

definition dm_two_png :: message where
  "dm_two_png =
     \<lparr> message_id = ''m4'', channelId = ''d1'', guildId = None, author_id = ''7'',
       author_username = ''ann'', author_bot = False, content = [],
       attachments = [png_a, png_b] \<rparr>"

definition guild_mixed :: message where
  "guild_mixed =
     \<lparr> message_id = ''m8'', channelId = ''c1'', guildId = Some ''g1'', author_id = ''7'',
       author_username = ''ann'', author_bot = False, content = [],
       attachments = [png_a, pdf_c, png_b] \<rparr>"

definition status_msg :: message where
  "status_msg =
     \<lparr> message_id = ''m1'', channelId = ''c9'', guildId = Some ''g1'', author_id = ''7'',
       author_username = ''ann'', author_bot = False, content = ''!status'', attachments = [] \<rparr>"

definition register_msg :: message where
  "register_msg =
     \<lparr> message_id = ''m5'', channelId = ''c9'', guildId = Some ''g1'', author_id = ''7'',
       author_username = ''ann'', author_bot = False, content = ''!register'', attachments = [] \<rparr>"

definition register_extra :: message where
  "register_extra =
     \<lparr> message_id = ''m6'', channelId = ''c9'', guildId = Some ''g1'', author_id = ''7'',
       author_username = ''ann'', author_bot = False, content = ''!register ann@example.com'',
       attachments = [] \<rparr>"

text \<open>The token after one space, as a direct message.\<close>

definition register_lead :: message where
  "register_lead =
     \<lparr> message_id = ''m9'', channelId = ''d1'', guildId = None, author_id = ''7'',
       author_username = ''ann'', author_bot = False, content = '' !register'',
       attachments = [] \<rparr>"

definition hello_msg :: "string option \<Rightarrow> message" where
  "hello_msg g =
     \<lparr> message_id = ''m7'', channelId = ''c9'', guildId = g, author_id = ''7'',
       author_username = ''ann'', author_bot = False, content = ''hello'', attachments = [] \<rparr>"

section \<open>Properties\<close>

subsection \<open>Sequencing: what a composed action returns and emits\<close>

lemmas io_defs = await_def try_catch_def return_def lift_def emit_def external_def
  fetch_def message_reply_def console_def outcome_def events_def world_def

lemma collect_Nil [simp]: "collect g [] = []"
  by (simp add: collect_def)

lemma collect_Cons [simp]: "collect g (e # es) = g e @ collect g es"
  by (simp add: collect_def)

lemma collect_append [simp]: "collect g (es @ es') = collect g es @ collect g es'"
  by (simp add: collect_def)

lemma outcome_triple [simp]: "outcome (r, es, w) = r"
  by (simp add: outcome_def)

lemma events_triple [simp]: "events (r, es, w) = es"
  by (simp add: events_def)

lemma world_triple [simp]: "world (r, es, w) = w"
  by (simp add: world_def)

lemma outcome_return [simp]: "outcome (return x w) = Inr x"
  by (simp add: io_defs)

lemma events_return [simp]: "events (return x w) = []"
  by (simp add: io_defs)

lemma world_return [simp]: "world (return x w) = w"
  by (simp add: io_defs)

lemma outcome_lift [simp]: "outcome (lift r w) = r"
  by (simp add: io_defs)

lemma events_lift [simp]: "events (lift r w) = []"
  by (simp add: io_defs)

lemma world_lift [simp]: "world (lift r w) = w"
  by (simp add: io_defs)

lemma events_emit [simp]: "events (emit e w) = [e]"
  by (simp add: io_defs)

lemma outcome_console [simp]: "outcome (console l w) = Inr ()"
  by (simp add: io_defs)

lemma events_console [simp]: "events (console l w) = [Console l]"
  by (simp add: io_defs)

lemma world_console [simp]: "world (console l w) = w"
  by (simp add: io_defs)

lemma outcome_fetch [simp]: "outcome (fetch env req w) = fst (env_fetch env req w)"
  by (simp add: io_defs split: prod.splits)

lemma events_fetch [simp]: "events (fetch env req w) = [Fetch req]"
  by (simp add: io_defs split: prod.splits)

lemma world_fetch [simp]: "world (fetch env req w) = snd (env_fetch env req w)"
  by (simp add: io_defs split: prod.splits)

lemma outcome_message_reply [simp]: "outcome (message_reply env r w) = fst (env_reply env r w)"
  by (simp add: io_defs split: prod.splits)

lemma events_message_reply [simp]: "events (message_reply env r w) = [Reply r]"
  by (simp add: io_defs split: prod.splits)

lemma world_message_reply [simp]: "world (message_reply env r w) = snd (env_reply env r w)"
  by (simp add: io_defs split: prod.splits)

lemma outcome_await:
  "outcome (await m f w)
     = (case outcome (m w) of Inl e \<Rightarrow> Inl e | Inr x \<Rightarrow> outcome (f x (world (m w))))"
  by (simp add: io_defs split: prod.splits sum.splits)

lemma events_await:
  "events (await m f w)
     = events (m w) @ (case outcome (m w) of Inl e \<Rightarrow> [] | Inr x \<Rightarrow> events (f x (world (m w))))"
  by (simp add: io_defs split: prod.splits sum.splits)

lemma outcome_try_catch:
  "outcome (try_catch m h w)
     = (case outcome (m w) of Inl e \<Rightarrow> outcome (h e (world (m w))) | Inr x \<Rightarrow> Inr x)"
  by (simp add: io_defs split: prod.splits sum.splits)

lemma events_try_catch:
  "events (try_catch m h w)
     = events (m w) @ (case outcome (m w) of Inl e \<Rightarrow> events (h e (world (m w))) | Inr x \<Rightarrow> [])"
  by (simp add: io_defs split: prod.splits sum.splits)

lemma outcome_await_emit: "outcome (await (emit e) f w) = outcome (f () w)"
  by (simp add: io_defs split: prod.splits)

lemma events_await_emit: "events (await (emit e) f w) = e # events (f () w)"
  by (simp add: io_defs split: prod.splits)

lemma await_return: "await (return x) f = f x"
  by (rule ext) (simp add: io_defs split: prod.splits)

text \<open>An action none of whose events is of the collected kind, built from such actions.\<close>

lemma mute_await:
  "(\<And>w. collect g (events (m w)) = []) \<Longrightarrow>
   (\<And>x w. collect g (events (f x w)) = []) \<Longrightarrow>
   collect g (events (await m f w)) = []"
  by (cases "outcome (m w)") (simp_all add: events_await)

lemma mute_try_catch:
  "(\<And>w. collect g (events (m w)) = []) \<Longrightarrow>
   (\<And>e w. collect g (events (h e w)) = []) \<Longrightarrow>
   collect g (events (try_catch m h w)) = []"
  by (cases "outcome (m w)") (simp_all add: events_try_catch)

lemma mute_if:
  "(c \<Longrightarrow> collect g (events (a w)) = []) \<Longrightarrow>
   (\<not> c \<Longrightarrow> collect g (events (b w)) = []) \<Longrightarrow>
   collect g (events ((if c then a else b) w)) = []"
  by simp

lemmas mute_intros = mute_await mute_try_catch mute_if

subsection \<open>Property reads\<close>

lemma get_prop_Inl_iff: "(get_prop v k = Inl e) = ((v = JUndefined \<or> v = JNull) \<and> e = TypeError)"
  by (cases v) auto

lemma get_prop_opt_Inr: "get_prop_opt v k \<noteq> Inl e"
  by (cases v) simp_all

subsection \<open>The lookup and the forwarder never throw\<close>

lemma getUserEmail_returns: "\<exists>v. outcome (getUserEmail penv env uid w) = Inr v"
  unfolding getUserEmail_def io_defs
  by (simp split: prod.splits sum.splits)

lemma forwardAttachment_returns: "\<exists>v. outcome (forwardAttachment penv env m u n w) = Inr v"
  unfolding forwardAttachment_def io_defs
  by (auto split: prod.splits sum.splits)

lemma getUserEmail_no_replies: "collect reply_of (events (getUserEmail penv env uid w)) = []"
  unfolding getUserEmail_def
  by (intro mute_intros) simp_all

lemma getUserEmail_no_forward_calls:
  "collect forward_call_of (events (getUserEmail penv env uid w)) = []"
  unfolding getUserEmail_def
  by (intro mute_intros) simp_all

lemma forwardAttachment_forward_calls:
  "forward_calls (events (forwardAttachment penv env m u n w)) = [(u, n)]"
  unfolding forwardAttachment_def forward_calls_def events_await_emit
  by (simp, intro mute_intros) (simp_all add: getUserEmail_no_forward_calls)

lemma forwardAttachment_replies:
  assumes "outcome (getUserEmail penv env (author_id m) w) = Inr email"
  shows "replies (events (forwardAttachment penv env m u n w))
           = (if truthy email then [] else [Reply_register_first])"
  using assms
  unfolding forwardAttachment_def replies_def events_await_emit
  by (cases "truthy email")
     (simp_all add: events_try_catch events_await getUserEmail_no_replies split: sum.splits)

lemma forwardAttachment_unregistered:
  "outcome (getUserEmail penv env (author_id m) w) = Inr email \<Longrightarrow> \<not> truthy email \<Longrightarrow>
   outcome (forwardAttachment penv env m u n w) = Inr False"
  unfolding forwardAttachment_def outcome_await_emit
  by (simp add: outcome_try_catch outcome_await split: sum.splits)

lemma forwardText_criterion:
  "trim (content m) \<noteq> [] \<Longrightarrow>
   outcome (forwardText penv env m w)
     = Inr (receiver_accepts (fst (env_fetch env (text_request penv m (trim (content m))) w)))"
  unfolding forwardText_def io_defs receiver_accepts_def
  by (simp split: prod.splits sum.splits)

subsection \<open>The classifier's branches\<close>

lemma status_not_register [simp]:
  "\<not> startsWith ''!status'' ''!register''" "\<not> startsWith ''!whoami'' ''!register''"
  by (simp_all add: startsWith_def)

lemma handleMessage_try_command:
  "\<not> author_bot m \<Longrightarrow>
   startsWith (content m) ''!register'' \<or> content m = ''!status'' \<or> content m = ''!whoami'' \<Longrightarrow>
   handleMessage_try penv env m
     = (if startsWith (content m) ''!register'' then handleRegistrationCommand penv env m
        else handleStatusCommand penv env m)"
  by (auto simp: handleMessage_try_def)

lemma handleMessage_try_content:
  "\<not> author_bot m \<Longrightarrow> \<not> startsWith (content m) ''!register'' \<Longrightarrow>
   content m \<noteq> ''!status'' \<Longrightarrow> content m \<noteq> ''!whoami'' \<Longrightarrow>
   (inGuild m \<longrightarrow> ALLOWED_CHANNELS (config penv) = []
      \<or> channelId m \<in> set (ALLOWED_CHANNELS (config penv))) \<Longrightarrow>
   handleMessage_try penv env m = handleMessage_content penv env m"
  by (auto simp: handleMessage_try_def)

lemma handleMessage_requests:
  "requests (events (handleMessage penv env m w)) = requests (events (handleMessage_try penv env m w))"
  unfolding handleMessage_def requests_def
  by (simp add: events_try_catch split: sum.splits)

lemma handleMessage_replies:
  "replies (events (handleMessage penv env m w)) = replies (events (handleMessage_try penv env m w))"
  unfolding handleMessage_def replies_def
  by (simp add: events_try_catch split: sum.splits)

lemma RECEIVER_URL_allow [simp]:
  "RECEIVER_URL (config (penv\<lparr> env_ALLOWED_CHANNELS := allow \<rparr>)) = RECEIVER_URL (config penv)"
  by (simp add: config_def)

lemma handleRegistrationCommand_allow:
  "handleRegistrationCommand (penv\<lparr> env_ALLOWED_CHANNELS := allow \<rparr>) env m
     = handleRegistrationCommand penv env m"
  by (simp add: handleRegistrationCommand_def oauth_request_def oauthInitUrl_def)

lemma handleStatusCommand_allow:
  "handleStatusCommand (penv\<lparr> env_ALLOWED_CHANNELS := allow \<rparr>) env m
     = handleStatusCommand penv env m"
  by (simp add: handleStatusCommand_def statusUrl_def)

lemma handleRegistrationCommand_requests:
  "requests (events (handleRegistrationCommand penv env m w))
     = (if trim (content m) = ''!register'' then [oauth_request penv m] else [])"
  unfolding handleRegistrationCommand_def requests_def events_await_emit ok_success_and_def
  by (simp add: events_try_catch events_await split: sum.splits)

lemma handleRegistrationCommand_rejects:
  "trim (content m) \<noteq> ''!register'' \<Longrightarrow>
   replies (events (handleRegistrationCommand penv env m w))
     = Reply_invalid_format
         # (case fst (env_reply env Reply_invalid_format w) of
              Inl e \<Rightarrow> [Reply_auth_technical_error] | Inr u \<Rightarrow> [])"
  unfolding handleRegistrationCommand_def replies_def events_await_emit
  by (simp add: events_try_catch events_await split: sum.splits)

subsection \<open>The loop over the attachments\<close>

lemma attachment_loop_skips:
  "attachment_loop penv env m atts
     = attachment_loop penv env m (filter (\<lambda>a. isImageType (contentType a)) atts)"
  by (induction atts) (simp_all add: await_return)

lemma step_forward_calls:
  "collect forward_call_of
     (events (await (forwardAttachment penv env m u n) (\<lambda>ok.
                if \<not> inGuild m then
                  (if ok then message_reply env Reply_got_it else message_reply env Reply_sorry)
                else return ()) w)) = [(u, n)]"
  using forwardAttachment_forward_calls [of penv env m u n w]
  by (simp add: events_await forward_calls_def split: sum.splits)

lemma attachment_loop_calls_prefix:
  "\<exists>k. forward_calls (events (attachment_loop penv env m atts w)) = take k (expected_calls atts)"
proof (induction atts arbitrary: w)
  case Nil
  show ?case by (simp add: forward_calls_def expected_calls_def)
next
  case (Cons a atts)
  show ?case
  proof (cases "isImageType (contentType a)")
    case False
    with Cons [of w] show ?thesis
      by (simp add: await_return expected_calls_def)
  next
    case True
    let ?step = "await (forwardAttachment penv env m (url a) (name_arg a)) (\<lambda>ok.
                if \<not> inGuild m then
                  (if ok then message_reply env Reply_got_it else message_reply env Reply_sorry)
                else return ())"
    show ?thesis
    proof (cases "outcome (?step w)")
      case (Inl e)
      with True have "forward_calls (events (attachment_loop penv env m (a # atts) w))
                        = take 1 (expected_calls (a # atts))"
        by (simp add: events_await [of ?step] step_forward_calls forward_calls_def
              expected_calls_def)
      then show ?thesis by blast
    next
      case (Inr x)
      from Cons [of "world (?step w)"] obtain k where
        k: "forward_calls (events (attachment_loop penv env m atts (world (?step w))))
              = take k (expected_calls atts)" by blast
      with True Inr have "forward_calls (events (attachment_loop penv env m (a # atts) w))
                        = take (Suc k) (expected_calls (a # atts))"
        by (simp add: events_await [of ?step] step_forward_calls forward_calls_def
              expected_calls_def)
      then show ?thesis by blast
    qed
  qed
qed

lemma attachment_loop_calls_complete:
  "outcome (attachment_loop penv env m atts w) = Inr () \<Longrightarrow>
   forward_calls (events (attachment_loop penv env m atts w)) = expected_calls atts"
proof (induction atts arbitrary: w)
  case Nil
  show ?case by (simp add: forward_calls_def expected_calls_def)
next
  case (Cons a atts)
  show ?case
  proof (cases "isImageType (contentType a)")
    case False
    with Cons.prems Cons.IH [of w] show ?thesis
      by (simp add: await_return expected_calls_def)
  next
    case True
    let ?step = "await (forwardAttachment penv env m (url a) (name_arg a)) (\<lambda>ok.
                if \<not> inGuild m then
                  (if ok then message_reply env Reply_got_it else message_reply env Reply_sorry)
                else return ())"
    from Cons.prems True obtain x where
      x: "outcome (?step w) = Inr x"
      and rest: "outcome (attachment_loop penv env m atts (world (?step w))) = Inr ()"
      by (auto simp: outcome_await [of ?step] split: sum.splits)
    from Cons.IH [OF rest] True x show ?thesis
      by (simp add: events_await [of ?step] step_forward_calls forward_calls_def
            expected_calls_def)
  qed
qed

lemma attachment_loop_guild_returns:
  "inGuild m \<Longrightarrow> outcome (attachment_loop penv env m atts w) = Inr ()"
proof (induction atts arbitrary: w)
  case Nil
  show ?case by simp
next
  case (Cons a atts)
  obtain v where v: "outcome (forwardAttachment penv env m (url a) (name_arg a) w) = Inr v"
    using forwardAttachment_returns [of penv env m "url a" "name_arg a" w] by auto
  from Cons v show ?case
    by (simp add: outcome_await await_return split: sum.splits)
qed

lemma attachment_loop_replies_ok_returns:
  "(\<And>r w'. fst (env_reply env r w') = Inr ()) \<Longrightarrow>
   outcome (attachment_loop penv env m atts w) = Inr ()"
proof (induction atts arbitrary: w)
  case Nil
  show ?case by simp
next
  case (Cons a atts)
  obtain v where v: "outcome (forwardAttachment penv env m (url a) (name_arg a) w) = Inr v"
    using forwardAttachment_returns [of penv env m "url a" "name_arg a" w] by auto
  from Cons v show ?case
    by (simp add: outcome_await await_return split: sum.splits)
qed

lemma attachment_loop_single_replies:
  assumes "isImageType (contentType a)"
    and "outcome (forwardAttachment penv env m (url a) (name_arg a) w) = Inr forwarded"
  shows "replies (events (attachment_loop penv env m [a] w))
           = replies (events (forwardAttachment penv env m (url a) (name_arg a) w))
             @ (if inGuild m then [] else [if forwarded then Reply_got_it else Reply_sorry])"
  using assms
  by (simp add: replies_def events_await split: sum.splits)

subsection \<open>The scenarios, evaluated\<close>

lemmas model_defs = handleMessage_def handleMessage_try_def handleMessage_content_def
  forwardAttachment_def forwardText_def getUserEmail_def handleRegistrationCommand_def
  handleStatusCommand_def ok_success_and_def io_defs

lemma isImageType_png: "isImageType (Some ''image/png'')"
  by (simp add: isImageType_def toLowerCase_def toLowerCase_unit_def startsWith_def)

lemma isImageType_pdf: "\<not> isImageType (Some ''application/pdf'')"
  by (simp add: isImageType_def toLowerCase_def toLowerCase_unit_def startsWith_def)

lemma allow_parsed: "ALLOWED_CHANNELS (config penv_allow) = [''c1'', ''c2'']"
  by (simp add: config_def penv_allow_def or_default_def trim_def isWhiteSpace_def)

lemma allow_empty: "ALLOWED_CHANNELS (config penv_ok) = []"
  by (simp add: config_def penv_ok_def or_default_def trim_def isWhiteSpace_def)

lemma trim_register: "trim ''!register'' = ''!register''"
  by (simp add: trim_def isWhiteSpace_def)

lemma trim_register_extra: "trim ''!register ann@example.com'' = ''!register ann@example.com''"
  by (simp add: trim_def isWhiteSpace_def)

lemma trim_hello: "trim ''hello'' = ''hello''"
  by (simp add: trim_def isWhiteSpace_def)

lemma eval_lookup_registered:
  "getUserEmail penv (server_env resp_registered post r) uid ()
     = (Inr (JStr ''ann@example.com''),
        [Invoke (Call_getUserEmail uid), Fetch (get_request (statusUrl penv uid))], ())"
  by (simp add: getUserEmail_def io_defs server_env_def resp_registered_def get_request_def ok_def)

lemma eval_lookup_unregistered:
  "getUserEmail penv (server_env resp_unregistered post r) uid ()
     = (Inr JNull,
        [Invoke (Call_getUserEmail uid), Fetch (get_request (statusUrl penv uid))], ())"
  by (simp add: getUserEmail_def io_defs server_env_def resp_unregistered_def get_request_def ok_def)

lemma eval_forward_accepted:
  "outcome (forwardAttachment penv (server_env resp_registered resp_accepted r) m u n ()) = Inr True"
  by (simp add: forwardAttachment_def getUserEmail_def io_defs server_env_def resp_registered_def
        resp_accepted_def get_request_def upload_request_def ok_def)

lemma eval_forward_rejected:
  "outcome (forwardAttachment penv (server_env resp_registered resp_server_error r) m u n ())
     = Inr False"
  by (simp add: forwardAttachment_def getUserEmail_def io_defs server_env_def resp_registered_def
        resp_server_error_def get_request_def upload_request_def ok_def)

lemma eval_status:
  "handleMessage_try penv_ok failing_env status_msg ()
     = (Inl (Rejected ''cannot reply''),
        [Invoke Call_handleStatusCommand, Fetch (get_request (statusUrl penv_ok ''7'')),
         Console (Err_status (Rejected ''offline'')), Reply Reply_status_unavailable], ())"
  by (simp add: handleMessage_try_def status_msg_def startsWith_def handleStatusCommand_def
        failing_env_def io_defs)

lemma eval_guild_unregistered:
  "handleMessage penv_ok (server_env resp_unregistered resp_accepted True) guild_png ()
     = (Inr (),
        [Invoke (Call_forwardAttachment ''https://cdn.example/a.png'' (Some ''a.png'')),
         Invoke (Call_getUserEmail ''7''),
         Fetch (get_request (statusUrl penv_ok ''7'')),
         Reply Reply_register_first], ())"
  by (simp add: model_defs guild_png_def png_a_def isImageType_png name_arg_def inGuild_def
        allow_empty startsWith_def server_env_def resp_unregistered_def get_request_def ok_def)

lemma eval_dm_two_png:
  "handleMessage penv_ok (server_env resp_registered resp_accepted False) dm_two_png ()
     = (Inr (),
        [Invoke (Call_forwardAttachment ''https://cdn.example/a.png'' (Some ''a.png'')),
         Invoke (Call_getUserEmail ''7''),
         Fetch (get_request (statusUrl penv_ok ''7'')),
         Fetch (get_request ''https://cdn.example/a.png''),
         Fetch (upload_request penv_ok dm_two_png ''image/png'' ''PNG'' (Some ''a.png'')
                  (JStr ''ann@example.com'')),
         Reply Reply_got_it,
         Console (Err_handler (Rejected ''cannot reply''))], ())"
  by (simp add: model_defs dm_two_png_def png_a_def png_b_def isImageType_png name_arg_def
        inGuild_def startsWith_def server_env_def resp_registered_def resp_accepted_def
        get_request_def upload_request_def ok_def or_default_def)

lemma eval_hello_dm:
  "handleMessage penv_allow quiet_env (hello_msg None) ()
     = (Inr (),
        [Invoke Call_forwardText, Fetch (text_request penv_allow (hello_msg None) ''hello''),
         Console (Err_forward_text (Rejected ''offline''))], ())"
  by (simp add: model_defs hello_msg_def inGuild_def startsWith_def trim_hello quiet_env_def)

lemma trim_register_lead: "trim '' !register'' = ''!register''"
  by (simp add: trim_def isWhiteSpace_def)

lemma eval_register_lead:
  "handleMessage penv_ok (server_env resp_registered resp_accepted True) register_lead ()
     = (Inr (),
        [Invoke Call_forwardText, Fetch (text_request penv_ok register_lead ''!register'')], ())"
  by (simp add: model_defs register_lead_def inGuild_def startsWith_def trim_register_lead
        server_env_def text_request_def resp_accepted_def ok_def)

section \<open>The claims\<close>

subsection \<open>Acknowledgement replies\<close>

text \<open>
  Claim C1, as amended. Let a message that is not from a bot and is no command carry
  exactly one attachment, an image, and pass the allow-list. Then \<^verbatim>\<open>handleMessage\<close> sends:
  first, only when the account lookup returned no email (so the forward failed), the
  registration prompt of \<^verbatim>\<open>forwardAttachment\<close>, in a guild channel as well as in a direct
  message; then, in a direct message only, exactly one acknowledgement, \<open>Reply_got_it\<close>
  when \<^verbatim>\<open>forwardAttachment\<close> returned true and \<open>Reply_sorry\<close> when it returned false.
  Nothing else is sent.
\<close>

theorem acknowledgements:
  "attachments m = [a] \<and> isImageType (contentType a) \<and> \<not> author_bot m
   \<and> \<not> startsWith (content m) ''!register'' \<and> content m \<noteq> ''!status''
   \<and> content m \<noteq> ''!whoami''
   \<and> (inGuild m \<longrightarrow> ALLOWED_CHANNELS (config penv) = []
         \<or> channelId m \<in> set (ALLOWED_CHANNELS (config penv)))
   \<longrightarrow>
   (\<exists>email forwarded.
      outcome (getUserEmail penv env (author_id m) w) = Inr email
      \<and> outcome (forwardAttachment penv env m (url a) (name_arg a) w) = Inr forwarded
      \<and> (forwarded \<longrightarrow> truthy email)
      \<and> replies (events (handleMessage penv env m w))
          = (if truthy email then [] else [Reply_register_first])
            @ (if inGuild m then [] else [if forwarded then Reply_got_it else Reply_sorry]))"
proof (intro impI, elim conjE)
  assume atts: "attachments m = [a]" and img: "isImageType (contentType a)"
    and nb: "\<not> author_bot m" and c1: "\<not> startsWith (content m) ''!register''"
    and c2: "content m \<noteq> ''!status''" and c3: "content m \<noteq> ''!whoami''"
    and al: "inGuild m \<longrightarrow> ALLOWED_CHANNELS (config penv) = []
               \<or> channelId m \<in> set (ALLOWED_CHANNELS (config penv))"
  obtain email where e: "outcome (getUserEmail penv env (author_id m) w) = Inr email"
    using getUserEmail_returns [of penv env "author_id m" w] by auto
  obtain forwarded where
    f: "outcome (forwardAttachment penv env m (url a) (name_arg a) w) = Inr forwarded"
    using forwardAttachment_returns [of penv env m "url a" "name_arg a" w] by auto
  have t: "forwarded \<longrightarrow> truthy email"
    using forwardAttachment_unregistered [OF e, of "url a" "name_arg a"] f by auto
  have "replies (events (handleMessage penv env m w))
          = replies (events (attachment_loop penv env m [a] w))"
    by (simp add: handleMessage_replies handleMessage_try_content [OF nb c1 c2 c3 al]
          handleMessage_content_def atts)
  also have "\<dots> = (if truthy email then [] else [Reply_register_first])
            @ (if inGuild m then [] else [if forwarded then Reply_got_it else Reply_sorry])"
    by (simp only: attachment_loop_single_replies [OF img f] forwardAttachment_replies [OF e])
  finally show "\<exists>email forwarded.
      outcome (getUserEmail penv env (author_id m) w) = Inr email
      \<and> outcome (forwardAttachment penv env m (url a) (name_arg a) w) = Inr forwarded
      \<and> (forwarded \<longrightarrow> truthy email)
      \<and> replies (events (handleMessage penv env m w))
          = (if truthy email then [] else [Reply_register_first])
            @ (if inGuild m then [] else [if forwarded then Reply_got_it else Reply_sorry])"
    using e f t by blast
qed

text \<open>
  The theorem at work: a direct message whose forward succeeds, one whose upload the
  receiver answers with 500, one from an author who is not registered, and a guild message
  whose forward succeeds.
\<close>

theorem acknowledgements_witness:
  "replies (events (handleMessage penv_ok (server_env resp_registered resp_accepted True) dm_png ()))
     = [Reply_got_it]
   \<and> replies (events (handleMessage penv_ok (server_env resp_registered resp_server_error True)
                        dm_png ()))
     = [Reply_sorry]
   \<and> replies (events (handleMessage penv_ok (server_env resp_unregistered resp_accepted True)
                        dm_png ()))
     = [Reply_register_first, Reply_sorry]
   \<and> replies (events (handleMessage penv_allow (server_env resp_registered resp_accepted True)
                        guild_png ()))
     = []"
proof -
  have pre: "attachments dm_png = [png_a] \<and> isImageType (contentType png_a) \<and> \<not> author_bot dm_png
      \<and> \<not> startsWith (content dm_png) ''!register'' \<and> content dm_png \<noteq> ''!status''
      \<and> content dm_png \<noteq> ''!whoami'' \<and> \<not> inGuild dm_png"
    by (simp add: dm_png_def png_a_def isImageType_png startsWith_def inGuild_def)
  have preg: "attachments guild_png = [png_a] \<and> isImageType (contentType png_a)
      \<and> \<not> author_bot guild_png
      \<and> \<not> startsWith (content guild_png) ''!register'' \<and> content guild_png \<noteq> ''!status''
      \<and> content guild_png \<noteq> ''!whoami'' \<and> inGuild guild_png
      \<and> channelId guild_png \<in> set (ALLOWED_CHANNELS (config penv_allow))"
    by (simp add: guild_png_def png_a_def isImageType_png startsWith_def inGuild_def allow_parsed)
  have a: "replies (events (handleMessage penv_ok (server_env resp_registered resp_accepted True)
                     dm_png ())) = [Reply_got_it]"
    using acknowledgements [of dm_png png_a penv_ok
            "server_env resp_registered resp_accepted True" "()"] pre
    by (auto simp: eval_lookup_registered eval_forward_accepted)
  have b: "replies (events (handleMessage penv_ok (server_env resp_registered resp_server_error True)
                     dm_png ())) = [Reply_sorry]"
    using acknowledgements [of dm_png png_a penv_ok
            "server_env resp_registered resp_server_error True" "()"] pre
    by (auto simp: eval_lookup_registered eval_forward_rejected)
  have c: "replies (events (handleMessage penv_ok (server_env resp_unregistered resp_accepted True)
                     dm_png ())) = [Reply_register_first, Reply_sorry]"
    using acknowledgements [of dm_png png_a penv_ok
            "server_env resp_unregistered resp_accepted True" "()"] pre
    by (auto simp: eval_lookup_unregistered)
  have d: "replies (events (handleMessage penv_allow (server_env resp_registered resp_accepted True)
                     guild_png ())) = []"
    using acknowledgements [of guild_png png_a penv_allow
            "server_env resp_registered resp_accepted True" "()"] preg
    by (auto simp: eval_lookup_registered)
  from a b c d show ?thesis by blast
qed

text \<open>
  Against claim C1 as stated: a guild message with one image attachment, from an author
  the receiver reports as not registered. The forward fails, and the handler has sent one
  reply, the registration prompt of line 354, where the claim has none.
\<close>

theorem guild_unregistered_gets_a_reply:
  "inGuild guild_png \<and> attachments guild_png = [png_a] \<and> isImageType (contentType png_a)
   \<and> outcome (forwardAttachment penv_ok (server_env resp_unregistered resp_accepted True)
                 guild_png (url png_a) (name_arg png_a) ()) = Inr False
   \<and> replies (events (handleMessage penv_ok (server_env resp_unregistered resp_accepted True)
                         guild_png ()))
       = [Reply_register_first]"
proof -
  have "inGuild guild_png \<and> attachments guild_png = [png_a] \<and> isImageType (contentType png_a)"
    by (simp add: inGuild_def guild_png_def png_a_def isImageType_png)
  moreover have "outcome (forwardAttachment penv_ok (server_env resp_unregistered resp_accepted True)
                   guild_png (url png_a) (name_arg png_a) ()) = Inr False"
    by (rule forwardAttachment_unregistered [where email = JNull])
       (simp_all add: eval_lookup_unregistered)
  moreover have "replies (events (handleMessage penv_ok
                     (server_env resp_unregistered resp_accepted True) guild_png ()))
                   = [Reply_register_first]"
    by (simp add: eval_guild_unregistered replies_def)
  ultimately show ?thesis by blast
qed

subsection \<open>The account lookup\<close>

text \<open>
  Claim C2, as amended. \<^verbatim>\<open>getUserEmail\<close> never throws. It returns the email exactly when
  the request was answered, the status is 2xx, and the body has a truthy \<^verbatim>\<open>success\<close>, a
  truthy \<^verbatim>\<open>registered\<close> and a truthy \<^verbatim>\<open>user.email\<close>; after every other outcome (the
  request rejected, a status outside 2xx, a body that does not parse, \<^verbatim>\<open>success\<close> or
  \<^verbatim>\<open>registered\<close> falsy, no email) it returns \<^verbatim>\<open>null\<close>.
\<close>

theorem getUserEmail_result:
  "outcome (getUserEmail penv env uid w)
     = Inr (registered_email (fst (env_fetch env (get_request (statusUrl penv uid)) w)))
   \<and> registered_email (Inl e) = JNull
   \<and> (\<not> ok resp \<longrightarrow> registered_email (Inr resp) = JNull)
   \<and> (json resp = Inl e \<longrightarrow> registered_email (Inr resp) = JNull)
   \<and> (\<not> truthy (body_field resp ''success'') \<longrightarrow> registered_email (Inr resp) = JNull)
   \<and> (\<not> truthy (body_field resp ''registered'') \<longrightarrow> registered_email (Inr resp) = JNull)
   \<and> (\<not> truthy (body_email resp) \<longrightarrow> registered_email (Inr resp) = JNull)
   \<and> (ok resp \<and> truthy (body_field resp ''success'') \<and> truthy (body_field resp ''registered'')
        \<and> truthy (body_email resp) \<longrightarrow>
        registered_email (Inr resp) = body_email resp \<and> registered_email (Inr resp) \<noteq> JNull)"
proof -
  have "outcome (getUserEmail penv env uid w)
     = Inr (registered_email (fst (env_fetch env (get_request (statusUrl penv uid)) w)))"
    unfolding getUserEmail_def io_defs registered_email_def body_email_def body_field_def
    by (auto simp: get_prop_Inl_iff get_prop_opt_Inr split: prod.splits sum.splits)
  moreover have "json resp = Inl e \<longrightarrow> registered_email (Inr resp) = JNull"
    by (simp add: registered_email_def body_field_def)
  ultimately show ?thesis
    by (auto simp: registered_email_def)
qed

theorem getUserEmail_result_witness:
  "outcome (getUserEmail penv_ok (server_env resp_registered resp_accepted True) ''7'' ())
     = Inr (JStr ''ann@example.com'')
   \<and> outcome (getUserEmail penv_ok quiet_env ''7'' ()) = Inr JNull
   \<and> outcome (getUserEmail penv_ok (server_env resp_server_error resp_accepted True) ''7'' ())
     = Inr JNull
   \<and> outcome (getUserEmail penv_ok (server_env resp_unregistered resp_accepted True) ''7'' ())
     = Inr JNull"
proof -
  have f: "fst (env_fetch (server_env g p True) (get_request u) ()) = Inr g" for g p u
    by (simp add: server_env_def get_request_def)
  have q: "fst (env_fetch quiet_env (get_request u) ()) = Inl (Rejected ''offline'')" for u
    by (simp add: quiet_env_def)
  have r1: "ok resp_registered \<and> truthy (body_field resp_registered ''success'')
      \<and> truthy (body_field resp_registered ''registered'') \<and> truthy (body_email resp_registered)
      \<and> body_email resp_registered = JStr ''ann@example.com''"
    by (simp add: resp_registered_def ok_def body_field_def body_email_def)
  have r2: "\<not> ok resp_server_error"
    by (simp add: resp_server_error_def ok_def)
  have r3: "\<not> truthy (body_field resp_unregistered ''registered'')"
    by (simp add: resp_unregistered_def body_field_def)
  have a: "outcome (getUserEmail penv_ok (server_env resp_registered resp_accepted True) ''7'' ())
     = Inr (JStr ''ann@example.com'')"
    using getUserEmail_result [of penv_ok "server_env resp_registered resp_accepted True" "''7''"
            "()" _ resp_registered] r1
    by (simp add: f)
  have b: "outcome (getUserEmail penv_ok quiet_env ''7'' ()) = Inr JNull"
    using getUserEmail_result [of penv_ok quiet_env "''7''" "()" "Rejected ''offline''"]
    by (simp add: q)
  have c: "outcome (getUserEmail penv_ok (server_env resp_server_error resp_accepted True) ''7'' ())
     = Inr JNull"
    using getUserEmail_result [of penv_ok "server_env resp_server_error resp_accepted True" "''7''"
            "()" _ resp_server_error] r2
    by (simp add: f)
  have d: "outcome (getUserEmail penv_ok (server_env resp_unregistered resp_accepted True) ''7'' ())
     = Inr JNull"
    using getUserEmail_result [of penv_ok "server_env resp_unregistered resp_accepted True" "''7''"
            "()" _ resp_unregistered] r3
    by (simp add: f)
  from a b c d show ?thesis by blast
qed

text \<open>
  Against claim C2 as stated: the receiver answers 200 with a body that reports
  \<^verbatim>\<open>registered: true\<close> and an email, but \<^verbatim>\<open>success: false\<close>. All three conditions of the
  claim hold, and the lookup returns \<^verbatim>\<open>null\<close>: line 622 also requires \<^verbatim>\<open>result.success\<close>.
\<close>

theorem getUserEmail_needs_success_flag:
  "ok resp_success_false
   \<and> body_field resp_success_false ''registered'' = JBool True
   \<and> body_email resp_success_false = JStr ''ann@example.com''
   \<and> outcome (getUserEmail penv_ok (server_env resp_success_false resp_accepted True) ''7'' ())
       = Inr JNull"
  by (simp add: getUserEmail_def io_defs server_env_def resp_success_false_def get_request_def
        ok_def body_field_def body_email_def)

subsection \<open>Commands come before the allow-list\<close>

text \<open>
  Claim C3. For a message that is not from a bot and whose content starts with
  \<^verbatim>\<open>!register\<close> or is \<^verbatim>\<open>!status\<close> or \<^verbatim>\<open>!whoami\<close>, the body of \<^verbatim>\<open>handleMessage\<close> is the call
  of the command handler (the registration handler when both tests match, as it comes
  first), the first event of the handling is the entry into that handler, and the
  handling does not depend on the allow-list: with any other value of \<^verbatim>\<open>ALLOWED_CHANNELS\<close>
  it is the same function of the world.
\<close>

theorem commands_bypass_allow_list:
  "\<not> author_bot m
   \<and> (startsWith (content m) ''!register'' \<or> content m = ''!status'' \<or> content m = ''!whoami'')
   \<longrightarrow>
     handleMessage_try penv env m
       = (if startsWith (content m) ''!register'' then handleRegistrationCommand penv env m
          else handleStatusCommand penv env m)
     \<and> handleMessage (penv\<lparr> env_ALLOWED_CHANNELS := allow \<rparr>) env m = handleMessage penv env m
     \<and> take 1 (events (handleMessage penv env m w))
         = [Invoke (if startsWith (content m) ''!register'' then Call_handleRegistrationCommand
                    else Call_handleStatusCommand)]"
proof (intro impI, elim conjE)
  assume nb: "\<not> author_bot m"
    and c: "startsWith (content m) ''!register'' \<or> content m = ''!status'' \<or> content m = ''!whoami''"
  note t = handleMessage_try_command [OF nb c]
  have a: "handleMessage (penv\<lparr> env_ALLOWED_CHANNELS := allow \<rparr>) env m = handleMessage penv env m"
    unfolding handleMessage_def t
    by (simp add: handleRegistrationCommand_allow handleStatusCommand_allow)
  have b: "take 1 (events (handleMessage penv env m w))
         = [Invoke (if startsWith (content m) ''!register'' then Call_handleRegistrationCommand
                    else Call_handleStatusCommand)]"
    unfolding handleMessage_def t
    by (simp add: events_try_catch handleRegistrationCommand_def handleStatusCommand_def
          events_await_emit)
  from t a b show "handleMessage_try penv env m
       = (if startsWith (content m) ''!register'' then handleRegistrationCommand penv env m
          else handleStatusCommand penv env m)
     \<and> handleMessage (penv\<lparr> env_ALLOWED_CHANNELS := allow \<rparr>) env m = handleMessage penv env m
     \<and> take 1 (events (handleMessage penv env m w))
         = [Invoke (if startsWith (content m) ''!register'' then Call_handleRegistrationCommand
                    else Call_handleStatusCommand)]"
    by blast
qed

text \<open>
  The theorem at work: \<^verbatim>\<open>!register\<close> and \<^verbatim>\<open>!status\<close> sent in guild channel c9 while the
  allow-list is c1, c2.
\<close>

theorem commands_bypass_allow_list_witness:
  "inGuild register_msg \<and> ALLOWED_CHANNELS (config penv_allow) = [''c1'', ''c2'']
   \<and> channelId register_msg \<notin> set (ALLOWED_CHANNELS (config penv_allow))
   \<and> handleMessage_try penv_allow quiet_env register_msg
       = handleRegistrationCommand penv_allow quiet_env register_msg
   \<and> take 1 (events (handleMessage penv_allow quiet_env register_msg ()))
       = [Invoke Call_handleRegistrationCommand]
   \<and> handleMessage (penv_allow\<lparr> env_ALLOWED_CHANNELS := None \<rparr>) quiet_env register_msg
       = handleMessage penv_allow quiet_env register_msg
   \<and> channelId status_msg \<notin> set (ALLOWED_CHANNELS (config penv_allow))
   \<and> take 1 (events (handleMessage penv_allow quiet_env status_msg ()))
       = [Invoke Call_handleStatusCommand]"
proof -
  have g: "inGuild register_msg \<and> ALLOWED_CHANNELS (config penv_allow) = [''c1'', ''c2'']
             \<and> channelId register_msg \<notin> set (ALLOWED_CHANNELS (config penv_allow))
             \<and> channelId status_msg \<notin> set (ALLOWED_CHANNELS (config penv_allow))"
    by (simp add: allow_parsed register_msg_def status_msg_def inGuild_def)
  have r: "\<not> author_bot register_msg \<and> startsWith (content register_msg) ''!register''"
    by (simp add: register_msg_def startsWith_def)
  have s: "\<not> author_bot status_msg \<and> content status_msg = ''!status''
             \<and> \<not> startsWith (content status_msg) ''!register''"
    by (simp add: status_msg_def)
  from g r s
    commands_bypass_allow_list [of register_msg penv_allow quiet_env None "()"]
    commands_bypass_allow_list [of status_msg penv_allow quiet_env None "()"]
  show ?thesis by auto
qed

subsection \<open>The allow-list\<close>

text \<open>
  Claim C4. For a message that is not from a bot and is no command: in a guild channel
  that is not on a non-empty allow-list, \<^verbatim>\<open>handleMessage\<close> returns with no event at all, so
  no request is made and nothing is forwarded; with an empty allow-list, and for every
  message without a guild id, whatever the allow-list, the handling is that of lines
  488-529, as if there were no filter.
\<close>

theorem allow_list_filter:
  "\<not> author_bot m \<and> \<not> startsWith (content m) ''!register''
   \<and> content m \<noteq> ''!status'' \<and> content m \<noteq> ''!whoami'' \<longrightarrow>
     (inGuild m \<and> ALLOWED_CHANNELS (config penv) \<noteq> []
        \<and> channelId m \<notin> set (ALLOWED_CHANNELS (config penv)) \<longrightarrow>
          handleMessage penv env m w = (Inr (), [], w))
     \<and> (ALLOWED_CHANNELS (config penv) = [] \<longrightarrow>
          handleMessage_try penv env m = handleMessage_content penv env m)
     \<and> (guildId m = None \<longrightarrow> handleMessage_try penv env m = handleMessage_content penv env m)"
  by (simp add: handleMessage_def handleMessage_try_def inGuild_def io_defs)

text \<open>
  The theorem at work: the text \<^verbatim>\<open>hello\<close> in guild channel c9 with the allow-list c1, c2,
  the same with no allow-list, and the same text as a direct message with the allow-list
  c1, c2, which is forwarded.
\<close>

theorem allow_list_filter_witness:
  "handleMessage penv_allow quiet_env (hello_msg (Some ''g1'')) () = (Inr (), [], ())
   \<and> handleMessage_try penv_ok quiet_env (hello_msg (Some ''g1''))
       = handleMessage_content penv_ok quiet_env (hello_msg (Some ''g1''))
   \<and> handleMessage_try penv_allow quiet_env (hello_msg None)
       = handleMessage_content penv_allow quiet_env (hello_msg None)
   \<and> requests (events (handleMessage penv_allow quiet_env (hello_msg None) ()))
       = [text_request penv_allow (hello_msg None) ''hello'']"
proof -
  have h: "\<not> author_bot (hello_msg g) \<and> \<not> startsWith (content (hello_msg g)) ''!register''
      \<and> content (hello_msg g) \<noteq> ''!status'' \<and> content (hello_msg g) \<noteq> ''!whoami''
      \<and> channelId (hello_msg g) = ''c9'' \<and> guildId (hello_msg g) = g" for g
    by (simp add: hello_msg_def startsWith_def)
  have i: "inGuild (hello_msg (Some ''g1''))"
    by (simp add: hello_msg_def inGuild_def)
  have a: "handleMessage penv_allow quiet_env (hello_msg (Some ''g1'')) () = (Inr (), [], ())"
    using allow_list_filter [of "hello_msg (Some ''g1'')" penv_allow quiet_env "()"]
      h [of "Some ''g1''"] i
    by (simp add: allow_parsed)
  have b: "handleMessage_try penv_ok quiet_env (hello_msg (Some ''g1''))
       = handleMessage_content penv_ok quiet_env (hello_msg (Some ''g1''))"
    using allow_list_filter [of "hello_msg (Some ''g1'')" penv_ok quiet_env "()"]
      h [of "Some ''g1''"]
    by (simp add: allow_empty)
  have c: "handleMessage_try penv_allow quiet_env (hello_msg None)
       = handleMessage_content penv_allow quiet_env (hello_msg None)"
    using allow_list_filter [of "hello_msg None" penv_allow quiet_env "()"] h [of None]
    by simp
  have d: "requests (events (handleMessage penv_allow quiet_env (hello_msg None) ()))
       = [text_request penv_allow (hello_msg None) ''hello'']"
    by (simp add: eval_hello_dm requests_def)
  from a b c d show ?thesis by blast
qed

subsection \<open>Image attachments\<close>

text \<open>
  Claim C5, as amended. The test for an image accepts \<^verbatim>\<open>image/png\<close> and refuses
  \<^verbatim>\<open>application/pdf\<close>. An attachment that fails the test is skipped without any event: the
  loop does what it does on the list without it. For a message with attachments that
  reaches the attachment step, the calls of \<^verbatim>\<open>forwardAttachment\<close> are a prefix of the
  expected ones (one per image attachment, in order, with its URL and its name); they are
  all of them whenever the step returns normally, which it does in a guild channel and
  whenever no reply is rejected. An acknowledgement reply that is rejected ends the loop:
  the attachments after it are not forwarded.
\<close>

theorem image_attachments_forwarded:
  "isImageType (Some ''image/png'') \<and> \<not> isImageType (Some ''application/pdf'')
   \<and> attachment_loop penv env m atts
       = attachment_loop penv env m (filter (\<lambda>a. isImageType (contentType a)) atts)
   \<and> (attachments m \<noteq> [] \<longrightarrow>
        (\<exists>k. forward_calls (events (handleMessage_content penv env m w))
               = take k (expected_calls (attachments m)))
        \<and> (outcome (handleMessage_content penv env m w) = Inr () \<longrightarrow>
             forward_calls (events (handleMessage_content penv env m w))
               = expected_calls (attachments m))
        \<and> (inGuild m \<longrightarrow> outcome (handleMessage_content penv env m w) = Inr ())
        \<and> ((\<forall>r w'. fst (env_reply env r w') = Inr ()) \<longrightarrow>
             outcome (handleMessage_content penv env m w) = Inr ()))"
  using attachment_loop_skips [of penv env m atts]
    attachment_loop_calls_prefix [of penv env m "attachments m" w]
    attachment_loop_calls_complete [of penv env m "attachments m" w]
    attachment_loop_guild_returns [of m penv env "attachments m" w]
    attachment_loop_replies_ok_returns [of env penv m "attachments m" w]
  by (simp add: isImageType_png isImageType_pdf handleMessage_content_def)

text \<open>
  The theorem at work: a guild message with a PNG, a PDF and a second PNG. Both images
  are forwarded, each once, in order; the PDF is not.
\<close>

theorem image_attachments_forwarded_witness:
  "attachments guild_mixed = [png_a, pdf_c, png_b] \<and> inGuild guild_mixed
   \<and> forward_calls (events (handleMessage_content penv_ok
                               (server_env resp_registered resp_accepted False) guild_mixed ()))
       = [(''https://cdn.example/a.png'', Some ''a.png''),
          (''https://cdn.example/b.png'', Some ''b.png'')]"
proof -
  have a: "attachments guild_mixed = [png_a, pdf_c, png_b] \<and> inGuild guild_mixed"
    by (simp add: guild_mixed_def inGuild_def)
  have e: "expected_calls (attachments guild_mixed)
             = [(''https://cdn.example/a.png'', Some ''a.png''),
                (''https://cdn.example/b.png'', Some ''b.png'')]"
    by (simp add: guild_mixed_def expected_calls_def png_a_def png_b_def pdf_c_def
          isImageType_png isImageType_pdf name_arg_def)
  from a e
    image_attachments_forwarded [of penv_ok "server_env resp_registered resp_accepted False"
      guild_mixed "[]" "()"]
  show ?thesis by simp
qed

text \<open>
  Against claim C5 as stated: a direct message with two PNG attachments, the author
  registered and the receiver accepting, while replies are rejected. The acknowledgement
  of the first image throws, the \<^verbatim>\<open>catch\<close> of line 530 ends the handling, and the second
  image is never passed to \<^verbatim>\<open>forwardAttachment\<close>.
\<close>

theorem failed_reply_ends_the_loop:
  "attachments dm_two_png = [png_a, png_b]
   \<and> isImageType (contentType png_a) \<and> isImageType (contentType png_b)
   \<and> forward_calls (events (handleMessage penv_ok (server_env resp_registered resp_accepted False)
                               dm_two_png ()))
       = [(url png_a, name_arg png_a)]"
proof -
  have "attachments dm_two_png = [png_a, png_b]
          \<and> isImageType (contentType png_a) \<and> isImageType (contentType png_b)"
    by (simp add: dm_two_png_def png_a_def png_b_def isImageType_png)
  moreover have "forward_calls (events (handleMessage penv_ok
                     (server_env resp_registered resp_accepted False) dm_two_png ()))
                   = [(url png_a, name_arg png_a)]"
    by (simp add: eval_dm_two_png forward_calls_def png_a_def name_arg_def)
  ultimately show ?thesis by blast
qed

subsection \<open>The registration command\<close>

text \<open>
  Claim C6, as amended. For a message that is not from a bot and whose content starts
  with \<^verbatim>\<open>!register\<close>: when its trimmed content is exactly \<^verbatim>\<open>!register\<close>,
  \<^verbatim>\<open>handleMessage\<close> issues exactly one request, the POST to the OAuth-initiation URL whose
  JSON body holds the author's id and username; when it carries anything more,
  \<^verbatim>\<open>handleMessage\<close> issues no request and its first reply is the rejection of line 542.
  The same holds of \<^verbatim>\<open>handleRegistrationCommand\<close> on whatever message it is called with.
\<close>

theorem register_is_argumentless:
  "(\<not> author_bot m \<and> startsWith (content m) ''!register'' \<longrightarrow>
      (trim (content m) = ''!register'' \<longrightarrow>
         requests (events (handleMessage penv env m w)) = [oauth_request penv m])
      \<and> (trim (content m) \<noteq> ''!register'' \<longrightarrow>
           requests (events (handleMessage penv env m w)) = []
           \<and> take 1 (replies (events (handleMessage penv env m w))) = [Reply_invalid_format]))
   \<and> req_method (oauth_request penv m) = POST
   \<and> req_url (oauth_request penv m) = oauthInitUrl penv
   \<and> req_body (oauth_request penv m)
       = Json_body (JObj [(''discordId'', JStr (author_id m)),
                          (''discordUsername'', JStr (author_username m))])
   \<and> (trim (content m) = ''!register'' \<longrightarrow>
        requests (events (handleRegistrationCommand penv env m w)) = [oauth_request penv m])
   \<and> (trim (content m) \<noteq> ''!register'' \<longrightarrow>
        requests (events (handleRegistrationCommand penv env m w)) = []
        \<and> take 1 (replies (events (handleRegistrationCommand penv env m w))) = [Reply_invalid_format])"
  by (simp add: handleRegistrationCommand_requests handleRegistrationCommand_rejects
        oauth_request_def handleMessage_requests handleMessage_replies handleMessage_try_command)

text \<open>
  The theorem at work: \<^verbatim>\<open>!register\<close> alone, and \<^verbatim>\<open>!register\<close> followed by an email address.
\<close>

theorem register_is_argumentless_witness:
  "\<not> author_bot register_msg \<and> startsWith (content register_msg) ''!register''
   \<and> trim (content register_msg) = ''!register''
   \<and> requests (events (handleMessage penv_ok quiet_env register_msg ()))
       = [oauth_request penv_ok register_msg]
   \<and> req_url (oauth_request penv_ok register_msg) = ''http://localhost:3000/api/auth/oauth/initiate''
   \<and> \<not> author_bot register_extra \<and> startsWith (content register_extra) ''!register''
   \<and> trim (content register_extra) \<noteq> ''!register''
   \<and> requests (events (handleMessage penv_ok quiet_env register_extra ())) = []
   \<and> take 1 (replies (events (handleMessage penv_ok quiet_env register_extra ())))
       = [Reply_invalid_format]"
proof -
  have a: "trim (content register_msg) = ''!register''"
    by (simp add: register_msg_def trim_register)
  have b: "trim (content register_extra) \<noteq> ''!register''"
    by (simp add: register_extra_def trim_register_extra)
  have c: "\<not> author_bot register_msg \<and> startsWith (content register_msg) ''!register''"
    by (simp add: register_msg_def startsWith_def)
  have d: "\<not> author_bot register_extra \<and> startsWith (content register_extra) ''!register''"
    by (simp add: register_extra_def startsWith_def)
  have u: "oauthInitUrl penv_ok = ''http://localhost:3000/api/auth/oauth/initiate''"
    by (simp add: oauthInitUrl_def config_def penv_ok_def or_default_def startsWith_def)
  from a b c d u
    register_is_argumentless [of register_msg penv_ok quiet_env "()"]
    register_is_argumentless [of register_extra penv_ok quiet_env "()"]
  show ?thesis by simp
qed

text \<open>
  Against claim C6 as stated: the direct message \<^verbatim>\<open>" !register"\<close> from a user who is not a
  bot. Its trimmed content is exactly the token, but line 469 tests the content as it was
  sent, which starts with a space: the registration handler is not called, no
  OAuth-initiation request is made, and the only request is the text post of
  \<^verbatim>\<open>forwardText\<close> to the receiver.
\<close>

theorem leading_space_is_not_a_command:
  "\<not> author_bot register_lead \<and> trim (content register_lead) = ''!register''
   \<and> requests (events (handleMessage penv_ok (server_env resp_registered resp_accepted True)
                          register_lead ()))
       = [text_request penv_ok register_lead ''!register'']
   \<and> req_url (text_request penv_ok register_lead ''!register'')
       = ''http://localhost:3000/api/receiver/image''
   \<and> req_url (oauth_request penv_ok register_lead)
       = ''http://localhost:3000/api/auth/oauth/initiate''
   \<and> text_request penv_ok register_lead ''!register'' \<noteq> oauth_request penv_ok register_lead"
proof -
  have a: "\<not> author_bot register_lead \<and> trim (content register_lead) = ''!register''"
    by (simp add: register_lead_def trim_register_lead)
  have b: "requests (events (handleMessage penv_ok
                      (server_env resp_registered resp_accepted True) register_lead ()))
             = [text_request penv_ok register_lead ''!register'']"
    by (simp add: eval_register_lead requests_def)
  have c: "req_url (text_request penv_ok register_lead ''!register'')
             = ''http://localhost:3000/api/receiver/image''"
    by (simp add: text_request_def config_def penv_ok_def or_default_def)
  have d: "req_url (oauth_request penv_ok register_lead)
             = ''http://localhost:3000/api/auth/oauth/initiate''"
    by (simp add: oauth_request_def oauthInitUrl_def config_def penv_ok_def or_default_def
          startsWith_def)
  have e: "text_request penv_ok register_lead ''!register'' \<noteq> oauth_request penv_ok register_lead"
    by (simp add: text_request_def oauth_request_def)
  from a b c d e show ?thesis by blast
qed

subsection \<open>The success criterion of the forwarder\<close>

text \<open>
  Claim C7. \<^verbatim>\<open>forwardText\<close>, once the trimmed content is not empty, and
  \<^verbatim>\<open>forwardAttachment\<close>, once the lookup gave an email and the attachment was fetched and
  read, return the same function of the outcome of their POST to the receiver: true
  exactly when the status is 2xx and the body parses to a truthy value. A status outside
  2xx, a body that does not parse and a rejected request all give false.
\<close>

theorem forwarders_share_success_criterion:
  "(trim (content m) \<noteq> [] \<longrightarrow>
      outcome (forwardText penv env m w)
        = Inr (receiver_accepts (fst (env_fetch env (text_request penv m (trim (content m))) w))))
   \<and> (\<forall>email es w1 res w2 buffer.
         getUserEmail penv env (author_id m) w = (Inr email, es, w1) \<and> truthy email
         \<and> env_fetch env (get_request u) w1 = (Inr res, w2) \<and> ok res
         \<and> arrayBuffer res = Inr buffer \<longrightarrow>
         outcome (forwardAttachment penv env m u n w)
           = Inr (receiver_accepts
                    (fst (env_fetch env
                            (upload_request penv m
                               (or_default (content_type res) ''application/octet-stream'')
                               buffer n email) w2))))
   \<and> \<not> receiver_accepts (Inl e)
   \<and> (\<not> ok resp \<longrightarrow> \<not> receiver_accepts (Inr resp))
   \<and> (json resp = Inl e \<longrightarrow> \<not> receiver_accepts (Inr resp))
   \<and> (ok resp \<and> json resp = Inr body \<longrightarrow> receiver_accepts (Inr resp) = truthy body)"
proof -
  have att: "outcome (forwardAttachment penv env m u n w)
           = Inr (receiver_accepts
                    (fst (env_fetch env
                            (upload_request penv m
                               (or_default (content_type res) ''application/octet-stream'')
                               buffer n email) w2)))"
    if "getUserEmail penv env (author_id m) w = (Inr email, es, w1)" "truthy email"
       "env_fetch env (get_request u) w1 = (Inr res, w2)" "ok res" "arrayBuffer res = Inr buffer"
    for email es w1 res w2 buffer
    using that unfolding forwardAttachment_def io_defs receiver_accepts_def
    by (simp split: prod.splits sum.splits)
  show ?thesis
    using att by (simp add: forwardText_criterion) (simp add: receiver_accepts_def)
qed

text \<open>
  The theorem at work: a text and an image, each once with a receiver that answers 200
  and a truthy body and once with one that answers 500 and a body that parses.
\<close>

theorem forwarders_share_success_criterion_witness:
  "trim (content (hello_msg None)) \<noteq> []
   \<and> outcome (forwardText penv_ok (server_env resp_registered resp_accepted True) (hello_msg None) ())
       = Inr True
   \<and> outcome (forwardText penv_ok (server_env resp_registered resp_server_error True) (hello_msg None) ())
       = Inr False
   \<and> outcome (forwardAttachment penv_ok (server_env resp_registered resp_accepted True) dm_png
                 (url png_a) (name_arg png_a) ()) = Inr True
   \<and> outcome (forwardAttachment penv_ok (server_env resp_registered resp_server_error True) dm_png
                 (url png_a) (name_arg png_a) ()) = Inr False"
proof -
  have t: "trim (content (hello_msg None)) \<noteq> []"
    by (simp add: hello_msg_def trim_hello)
  have acc: "receiver_accepts (Inr resp_accepted)" "\<not> receiver_accepts (Inr resp_server_error)"
    by (simp_all add: receiver_accepts_def resp_accepted_def resp_server_error_def ok_def)
  have f: "fst (env_fetch (server_env g p True) (text_request penv_ok mm x) ()) = Inr p"
    for g p mm x
    by (simp add: server_env_def text_request_def)
  have up: "fst (env_fetch (server_env g p True) (upload_request penv_ok mm c b nn e) ()) = Inr p"
    for g p mm c b nn e
    by (simp add: server_env_def upload_request_def)
  have l: "getUserEmail penv_ok (server_env resp_registered p True) (author_id dm_png) ()
             = (Inr (JStr ''ann@example.com''),
                [Invoke (Call_getUserEmail (author_id dm_png)),
                 Fetch (get_request (statusUrl penv_ok (author_id dm_png)))], ())"
    for p
    by (rule eval_lookup_registered)
  have g: "env_fetch (server_env resp_registered p True) (get_request (url png_a)) ()
             = (Inr resp_registered, ())" for p
    by (simp add: server_env_def get_request_def)
  have r: "ok resp_registered" "arrayBuffer resp_registered = Inr ''PNG''"
    by (simp_all add: ok_def resp_registered_def)
  note th1 = forwarders_share_success_criterion
    [of "hello_msg None" penv_ok "server_env resp_registered resp_accepted True" "()"]
  note th2 = forwarders_share_success_criterion
    [of "hello_msg None" penv_ok "server_env resp_registered resp_server_error True" "()"]
  note th3 = forwarders_share_success_criterion
    [of dm_png penv_ok "server_env resp_registered resp_accepted True" "()" "url png_a" "name_arg png_a"]
  note th4 = forwarders_share_success_criterion
    [of dm_png penv_ok "server_env resp_registered resp_server_error True" "()" "url png_a" "name_arg png_a"]
  have a: "outcome (forwardText penv_ok (server_env resp_registered resp_accepted True) (hello_msg None) ())
       = Inr True"
    using th1 t acc by (simp add: f)
  have b: "outcome (forwardText penv_ok (server_env resp_registered resp_server_error True) (hello_msg None) ())
       = Inr False"
    using th2 t acc by (simp add: f)
  have c: "outcome (forwardAttachment penv_ok (server_env resp_registered resp_accepted True) dm_png
                 (url png_a) (name_arg png_a) ()) = Inr True"
    using th3 l [of resp_accepted] g [of resp_accepted] r acc by (simp add: up)
  have d: "outcome (forwardAttachment penv_ok (server_env resp_registered resp_server_error True) dm_png
                 (url png_a) (name_arg png_a) ()) = Inr False"
    using th4 l [of resp_server_error] g [of resp_server_error] r acc by (simp add: up)
  from t a b c d show ?thesis by blast
qed

subsection \<open>Nothing escapes handleMessage\<close>

text \<open>
  Claim C8. For every message, every configuration and every behaviour of the outside
  world, \<^verbatim>\<open>handleMessage\<close> returns normally. When a step inside its \<^verbatim>\<open>try\<close> block throws, the
  events are those up to the throw followed by the \<^verbatim>\<open>console.error\<close> of line 531 with that
  exception; when none throws, \<^verbatim>\<open>handleMessage\<close> adds no event.
\<close>

theorem handleMessage_never_throws:
  "outcome (handleMessage penv env m w) = Inr ()
   \<and> (\<forall>e. outcome (handleMessage_try penv env m w) = Inl e \<longrightarrow>
          events (handleMessage penv env m w)
            = events (handleMessage_try penv env m w) @ [Console (Err_handler e)])
   \<and> (outcome (handleMessage_try penv env m w) = Inr () \<longrightarrow>
          events (handleMessage penv env m w) = events (handleMessage_try penv env m w))"
  unfolding handleMessage_def
  by (simp add: io_defs split: prod.splits sum.splits)

text \<open>
  The theorem at work: \<^verbatim>\<open>!status\<close> while the receiver is unreachable and replies are
  rejected. The status handler catches the failed request, its own reply then throws out
  of the handler, and \<^verbatim>\<open>handleMessage\<close> catches and logs that.
\<close>

theorem handleMessage_never_throws_witness:
  "outcome (handleMessage_try penv_ok failing_env status_msg ()) = Inl (Rejected ''cannot reply'')
   \<and> outcome (handleMessage penv_ok failing_env status_msg ()) = Inr ()
   \<and> events (handleMessage penv_ok failing_env status_msg ())
       = [Invoke Call_handleStatusCommand, Fetch (get_request (statusUrl penv_ok ''7'')),
          Console (Err_status (Rejected ''offline'')), Reply Reply_status_unavailable,
          Console (Err_handler (Rejected ''cannot reply''))]"
  using handleMessage_never_throws [of penv_ok failing_env status_msg "()"]
  by (simp add: eval_status)

subsection \<open>The lifecycle\<close>

lemma isRunning_setupEventHandlers: "isRunning (setupEventHandlers s) = isRunning s"
  by (simp add: setupEventHandlers_def split: option.splits)

text \<open>
  Claim C9. In every state of the service, hence after every sequence of calls:
  \<^verbatim>\<open>start\<close> on a running service logs that it is running and changes nothing;
  \<^verbatim>\<open>start\<close> on a service that is not running throws the error of \<^verbatim>\<open>validateConfig\<close> or the
  rejection of \<^verbatim>\<open>login\<close>, and whenever it throws, \<^verbatim>\<open>isRunning\<close> is false afterwards;
  \<^verbatim>\<open>stop\<close> on a stopped service returns with no event and no change.
\<close>

theorem start_stop_lifecycle:
  "(isRunning s \<longrightarrow> start penv env (s, w) = (Inr (), [Console Log_already_running], (s, w)))
   \<and> (\<not> isRunning s \<longrightarrow>
        (\<forall>e. validateConfig penv = Inl e \<longrightarrow>
               start penv env (s, w) = (Inl e, [Console (Err_start e)], (s, w)))
        \<and> (\<forall>e. validateConfig penv = Inr () \<longrightarrow>
                 fst (env_login env (BOT_TOKEN (config penv)) w) = Inl e \<longrightarrow>
                 outcome (start penv env (s, w)) = Inl e)
        \<and> (\<forall>e. outcome (start penv env (s, w)) = Inl e \<longrightarrow>
                 \<not> isRunning (service_after (start penv env (s, w)))
                 \<and> (validateConfig penv = Inl e
                      \<or> fst (env_login env (BOT_TOKEN (config penv)) w) = Inl e)))
   \<and> (\<not> isRunning s \<or> client s = None \<longrightarrow> stop env (s, w) = (Inr (), [], (s, w)))"
  by (auto simp: start_def stop_def outcome_def service_after_def Let_def
        isRunning_setupEventHandlers split: sum.splits prod.splits)

theorem start_stop_lifecycle_witness:
  "start penv_ok quiet_env (running, ()) = (Inr (), [Console Log_already_running], (running, ()))
   \<and> outcome (start penv_no_token quiet_env (stopped, ()))
       = Inl (Error ''Missing DISCORD_BOT_TOKEN in environment variables'')
   \<and> outcome (start penv_ok failing_env (stopped, ())) = Inl (Rejected ''invalid token'')
   \<and> \<not> isRunning (service_after (start penv_ok failing_env (stopped, ())))
   \<and> stop quiet_env (stopped, ()) = (Inr (), [], (stopped, ()))"
proof -
  have r: "isRunning running" and st: "\<not> isRunning stopped"
    by (simp_all add: running_def stopped_def)
  have v1: "validateConfig penv_no_token
              = Inl (Error ''Missing DISCORD_BOT_TOKEN in environment variables'')"
    by (simp add: validateConfig_def config_def penv_no_token_def)
  have v2: "validateConfig penv_ok = Inr ()"
    by (simp add: validateConfig_def config_def penv_ok_def or_default_def)
  have l: "fst (env_login failing_env (BOT_TOKEN (config penv_ok)) ())
             = Inl (Rejected ''invalid token'')"
    by (simp add: failing_env_def)
  have a: "start penv_ok quiet_env (running, ())
             = (Inr (), [Console Log_already_running], (running, ()))"
    using start_stop_lifecycle [of running penv_ok quiet_env "()"] r by blast
  have b: "start penv_no_token quiet_env (stopped, ())
             = (Inl (Error ''Missing DISCORD_BOT_TOKEN in environment variables''),
                [Console (Err_start (Error ''Missing DISCORD_BOT_TOKEN in environment variables''))],
                (stopped, ()))"
    using start_stop_lifecycle [of stopped penv_no_token quiet_env "()"] st v1 by blast
  have c: "outcome (start penv_ok failing_env (stopped, ())) = Inl (Rejected ''invalid token'')"
    using start_stop_lifecycle [of stopped penv_ok failing_env "()"] st v2 l by blast
  have d: "\<not> isRunning (service_after (start penv_ok failing_env (stopped, ())))"
    using start_stop_lifecycle [of stopped penv_ok failing_env "()"] st c by blast
  have e: "stop quiet_env (stopped, ()) = (Inr (), [], (stopped, ()))"
    using start_stop_lifecycle [of stopped penv_ok quiet_env "()"] st by blast
  show ?thesis using a b c d e by (simp add: outcome_def)
qed

text \<open>
  Claim C10. When \<^verbatim>\<open>client.destroy\<close> rejects inside \<^verbatim>\<open>stop\<close> on a running service,
  \<^verbatim>\<open>stop\<close> returns normally after logging the error, both fields of the service are as
  before (still running, the client kept), and a later \<^verbatim>\<open>stop\<close> calls \<^verbatim>\<open>destroy\<close> again.
\<close>

theorem stop_swallows_destroy_failure:
  "isRunning s \<and> client s \<noteq> None \<and> fst (env_destroy env w) = Inl e \<longrightarrow>
   outcome (stop env (s, w)) = Inr ()
   \<and> service_after (stop env (s, w)) = s
   \<and> events (stop env (s, w)) = [Destroy, Console (Err_stop e)]
   \<and> (\<forall>w'. take 1 (events (stop env (service_after (stop env (s, w)), w'))) = [Destroy])"
  by (auto simp: stop_def outcome_def service_after_def events_def split: sum.splits prod.splits)

theorem stop_swallows_destroy_failure_witness:
  "isRunning running \<and> client running \<noteq> None
   \<and> fst (env_destroy failing_env ()) = Inl (Rejected ''socket error'')
   \<and> outcome (stop failing_env (running, ())) = Inr ()
   \<and> service_after (stop failing_env (running, ())) = running
   \<and> isRunning (service_after (stop failing_env (running, ())))
   \<and> events (stop failing_env (running, ()))
       = [Destroy, Console (Err_stop (Rejected ''socket error''))]"
  using stop_swallows_destroy_failure [of running failing_env "()" "Rejected ''socket error''"]
  by (simp add: running_def failing_env_def)

end
